theory Spec2Isabelle
  imports Complex_Main
begin

section \<open>Scene export: bounding boxes and curves (BlenRose.py, bulk export helpers)\<close>

text \<open>
  Coordinates are Python floats. The export code only permutes and negates them and
  compares them with \<open>min\<close>/\<open>max\<close>; all of that is exact on floats, so coordinates
  are modelled as reals. The product \<open>matrix_world @ v\<close> is the host's (mathutils) and is
  kept as the field \<open>matrix_world\<close>, a function on points.
\<close>

type_synonym vec3 = "real \<times> real \<times> real"

type_synonym vec4 = "real \<times> real \<times> real \<times> real"

record bbox =
  bmin :: vec3
  bmax :: vec3

text \<open>A spline of a curve datablock: \<open>spline.points\<close> hold 4D coordinates (\<open>co.xyz\<close>
  drops the weight), \<open>spline.bezier_points\<close> hold 3D ones.\<close>

record spline =
  spline_type :: string
  points :: "vec4 list"
  bezier_points :: "vec3 list"
  use_cyclic_u :: bool

record scene_object =
  obj_name :: string
  obj_type :: string
  visible :: bool
  matrix_world :: "vec3 \<Rightarrow> vec3"
  bound_box :: "vec3 list"
  splines :: "spline list"

text \<open>One entry of the list returned by \<open>_extract_splines_from_scene\<close>.\<close>

record spline_entry =
  entry_name :: string
  entry_points :: "vec3 list"
  is_closed :: bool
  entry_type :: string
  entry_bbox :: "bbox option"

definition xyz :: "vec4 \<Rightarrow> vec3" where
  "xyz p = (case p of (x, y, z, w) \<Rightarrow> (x, y, z))"

text \<open>Python's \<open>min(...)\<close> and \<open>max(...)\<close> over a generator; the callers test
  \<open>if not points\<close> first, so the empty case (a ValueError) is not reached.\<close>

fun py_min :: "real list \<Rightarrow> real" where
  "py_min (x # xs) = foldl min x xs"

fun py_max :: "real list \<Rightarrow> real" where
  "py_max (x # xs) = foldl max x xs"

definition calculate_bbox_from_points :: "vec3 list \<Rightarrow> bbox option" where
  "calculate_bbox_from_points pts =
     (if pts = [] then None
      else
        let min_x = py_min (map (\<lambda>p. fst p) pts);
            max_x = py_max (map (\<lambda>p. fst p) pts);
            min_y = py_min (map (\<lambda>p. fst (snd p)) pts);
            max_y = py_max (map (\<lambda>p. fst (snd p)) pts);
            min_z = py_min (map (\<lambda>p. snd (snd p)) pts);
            max_z = py_max (map (\<lambda>p. snd (snd p)) pts)
        in Some \<lparr>bmin = (min_x, min_y, min_z), bmax = (max_x, max_y, max_z)\<rparr>)"

text \<open>
  The six running extrema of \<open>_calculate_bbox_for_objects\<close> start at
  \<open>float('inf')\<close> and \<open>float('-inf')\<close>. \<open>None\<close> stands for that initial infinity:
  \<open>min(inf, x) = x\<close> and \<open>max(-inf, x) = x\<close>.
\<close>

record extrema =
  min_x :: "real option"
  min_y :: "real option"
  min_z :: "real option"
  max_x :: "real option"
  max_y :: "real option"
  max_z :: "real option"

definition inf_min :: "real option \<Rightarrow> real \<Rightarrow> real option" where
  "inf_min m x = (case m of None \<Rightarrow> Some x | Some v \<Rightarrow> Some (min v x))"

definition neg_inf_max :: "real option \<Rightarrow> real \<Rightarrow> real option" where
  "neg_inf_max m x = (case m of None \<Rightarrow> Some x | Some v \<Rightarrow> Some (max v x))"

text \<open>The body of \<open>for corner in bbox_corners\<close>.\<close>

definition add_corner :: "extrema \<Rightarrow> vec3 \<Rightarrow> extrema" where
  "add_corner e corner =
     (case corner of (corner_x, corner_y, corner_z) \<Rightarrow>
        let psg_x = corner_x;
            psg_y = corner_z;
            psg_z = - corner_y
        in \<lparr>min_x = inf_min (min_x e) psg_x,
            min_y = inf_min (min_y e) psg_y,
            min_z = inf_min (min_z e) psg_z,
            max_x = neg_inf_max (max_x e) psg_x,
            max_y = neg_inf_max (max_y e) psg_y,
            max_z = neg_inf_max (max_z e) psg_z\<rparr>)"

text \<open>The body of \<open>for obj in objects\<close>; the host's \<open>bound_box\<close> has eight corners.\<close>

definition add_object :: "extrema \<Rightarrow> scene_object \<Rightarrow> extrema" where
  "add_object e obj =
     (if obj_type obj \<noteq> ''MESH'' then e
      else
        let bbox_corners = map (matrix_world obj) (take 8 (bound_box obj))
        in foldl add_corner e bbox_corners)"

definition calculate_bbox_for_objects :: "scene_object list \<Rightarrow> bbox option" where
  "calculate_bbox_for_objects objects =
     (if objects = [] then None
      else
        let e = foldl add_object
                  \<lparr>min_x = None, min_y = None, min_z = None,
                   max_x = None, max_y = None, max_z = None\<rparr> objects
        in (case (min_x e, min_y e, min_z e, max_x e, max_y e, max_z e) of
              (Some x0, Some y0, Some z0, Some x1, Some y1, Some z1) \<Rightarrow>
                Some \<lparr>bmin = (x0, y0, z0), bmax = (x1, y1, z1)\<rparr>
            | _ \<Rightarrow> None))"

definition bbox_intersects :: "bbox option \<Rightarrow> bbox option \<Rightarrow> bool" where
  "bbox_intersects bbox1 bbox2 =
     (case (bbox1, bbox2) of
        (Some b1, Some b2) \<Rightarrow>
          (case (bmin b1, bmax b1, bmin b2, bmax b2) of
             ((lx1, ly1, lz1), (hx1, hy1, hz1), (lx2, ly2, lz2), (hx2, hy2, hz2)) \<Rightarrow>
               lx1 \<le> hx2 \<and> hx1 \<ge> lx2 \<and>
               ly1 \<le> hy2 \<and> hy1 \<ge> ly2 \<and>
               lz1 \<le> hz2 \<and> hz1 \<ge> lz2)
      | _ \<Rightarrow> False)"

text \<open>The three assignments \<open>psg_x = blender_x; psg_y = blender_z; psg_z = -blender_y\<close>
  applied to one world-space point of a spline.\<close>

definition spline_point :: "(vec3 \<Rightarrow> vec3) \<Rightarrow> vec3 \<Rightarrow> vec3" where
  "spline_point mw co =
     (case mw co of (blender_x, blender_y, blender_z) \<Rightarrow>
        let psg_x = blender_x;
            psg_y = blender_z;
            psg_z = - blender_y
        in (psg_x, psg_y, psg_z))"

text \<open>The \<open>if\<close>/\<open>elif\<close> chain on \<open>spline.type\<close> that fills \<open>points\<close>; a bpy collection
  is truthy when it is not empty.\<close>

definition sample_spline :: "(vec3 \<Rightarrow> vec3) \<Rightarrow> spline \<Rightarrow> vec3 list" where
  "sample_spline mw sp =
     (if spline_type sp = ''POLY'' \<and> points sp \<noteq> [] then
        map (\<lambda>point. spline_point mw (xyz point)) (points sp)
      else if spline_type sp = ''BEZIER'' \<and> bezier_points sp \<noteq> [] then
        map (\<lambda>bezier_point. spline_point mw bezier_point) (bezier_points sp)
      else if spline_type sp = ''NURBS'' \<and> points sp \<noteq> [] then
        map (\<lambda>point. spline_point mw (xyz point)) (points sp)
      else [])"

text \<open>The body of \<open>for spline in curve_data.splines\<close>, with the result list threaded.\<close>

definition add_spline :: "scene_object \<Rightarrow> spline_entry list \<Rightarrow> spline \<Rightarrow> spline_entry list" where
  "add_spline obj acc sp =
     (let pts = sample_spline (matrix_world obj) sp
      in if length pts \<ge> 2 then
           acc @ [\<lparr>entry_name = obj_name obj,
                   entry_points = pts,
                   is_closed = use_cyclic_u sp,
                   entry_type = spline_type sp,
                   entry_bbox = calculate_bbox_from_points pts\<rparr>]
         else acc)"

definition extract_splines_from_scene :: "scene_object list \<Rightarrow> spline_entry list" where
  "extract_splines_from_scene scene_objects =
     (let curve_objects = filter (\<lambda>obj. obj_type obj = ''CURVE'' \<and> visible obj) scene_objects
      in foldl (\<lambda>acc obj. foldl (add_spline obj) acc (splines obj)) [] curve_objects)"

text \<open>
  For stating the remap: the world-space bounding-box corners of the mesh objects of a
  list, each sent to \<open>(x, z, -y)\<close>; and the running extrema that a list of target-space
  points gives.
\<close>

definition remapped_corners :: "scene_object list \<Rightarrow> vec3 list" where
  "remapped_corners objs =
     map (\<lambda>c. (fst c, snd (snd c), - fst (snd c)))
       (concat (map (\<lambda>obj. map (matrix_world obj) (take 8 (bound_box obj)))
                  (filter (\<lambda>obj. obj_type obj = ''MESH'') objs)))"

definition extrema_of :: "vec3 list \<Rightarrow> extrema" where
  "extrema_of pts =
     (if pts = [] then \<lparr>min_x = None, min_y = None, min_z = None,
                         max_x = None, max_y = None, max_z = None\<rparr>
      else \<lparr>min_x = Some (py_min (map (\<lambda>p. fst p) pts)),
            min_y = Some (py_min (map (\<lambda>p. fst (snd p)) pts)),
            min_z = Some (py_min (map (\<lambda>p. snd (snd p)) pts)),
            max_x = Some (py_max (map (\<lambda>p. fst p) pts)),
            max_y = Some (py_max (map (\<lambda>p. fst (snd p)) pts)),
            max_z = Some (py_max (map (\<lambda>p. snd (snd p)) pts))\<rparr>)"

text \<open>A scene with one visible curve object: a two-point polyline, a one-point polyline
  and a spline of a type the extraction has no branch for.\<close>

definition rail_object :: scene_object where
  "rail_object =
     \<lparr>obj_name = ''Rail'', obj_type = ''CURVE'', visible = True, matrix_world = (\<lambda>p. p),
      bound_box = [],
      splines = [\<lparr>spline_type = ''POLY'', points = [(0, 0, 0, 1), (1, 2, 3, 1)],
                   bezier_points = [], use_cyclic_u = False\<rparr>,
                 \<lparr>spline_type = ''POLY'', points = [(5, 5, 5, 1)],
                   bezier_points = [], use_cyclic_u = False\<rparr>,
                 \<lparr>spline_type = ''BSPLINE'',
                   points = [(0, 0, 0, 1), (1, 1, 1, 1), (2, 2, 2, 1)],
                   bezier_points = [], use_cyclic_u = True\<rparr>]\<rparr>"

section \<open>Material settings and the classification tables\<close>

text \<open>Python exceptions the modelled code can raise.\<close>

datatype py_error = KeyError | IndexError | AttributeError | RuntimeError | TypeError | ValueError

text \<open>An enum item as Blender takes it: \<open>(identifier, name, description)\<close>.\<close>

type_synonym enum_item = "string \<times> string \<times> string"

text \<open>An image datablock; \<open>None\<close> of type \<open>image option\<close> is an unset pointer property,
  the only falsy value of such a property.\<close>

record image =
  image_name :: string
  filepath :: string

definition MATERIAL_CLASS_ITEMS :: "enum_item list" where
  "MATERIAL_CLASS_ITEMS =
     [(''ADVERTISEMENT'', ''advertisement'', ''''), (''ANIMATED'', ''animated'', ''''),
      (''BASIC'', ''basic'', ''''), (''BUILDING'', ''building'', ''''),
      (''CHARACTER'', ''character'', ''''), (''CHARATTRIBUTES'', ''charattributes'', ''''),
      (''DEFAULTENVIRONMENT'', ''defaultenvironment'', ''''),
      (''DMOATTRIBUTES'', ''dmoattributes'', ''''),
      (''DYNAMICOBJECT'', ''dynamicobject'', ''''),
      (''ENVATTRIBUTES'', ''envattributes'', ''''), (''ENVIRONMENT'', ''environment'', ''''),
      (''ENVIRONMENTPARK'', ''environmentpark'', ''''),
      (''ENVIRONMENTSIMPLE'', ''environmentsimple'', ''''), (''FOG'', ''fog'', ''''),
      (''GLARE'', ''glare'', ''''), (''GODRAY'', ''godray'', ''''),
      (''INCANDESCENT'', ''incandescent'', ''''), (''NAMEMAP'', ''namemap'', ''''),
      (''OCEAN'', ''ocean'', ''''), (''PROXYWORLD'', ''proxyworld'', ''''),
      (''SKY'', ''sky'', ''''), (''TERRAIN'', ''terrain'', ''''),
      (''TRAFFICLIGHT'', ''trafficlight'', ''''), (''TREE'', ''tree'', ''''),
      (''VEHICLE'', ''vehicle'', ''''), (''VISUALINDICATOR'', ''visualindicator'', ''''),
      (''WATER'', ''water'', '''')]"

definition MATERIAL_SUBCLASSES_items :: "(string \<times> enum_item list) list" where
  "MATERIAL_SUBCLASSES_items =
     [(''ADVERTISEMENT'',
        [(''DEFAULT'', ''default'', '''')]),
      (''ANIMATED'',
        [(''DEFAULT'', ''default'', ''''), (''FLAG'', ''flag'', ''''),
         (''SHRUB'', ''shrub'', ''''), (''TREE'', ''tree'', '''')]),
      (''BASIC'',
        [(''DEFAULT'', ''default'', '''')]),
      (''BUILDING'',
        [(''CEILINGLOCAL'', ''ceilinglocal'', ''''), (''DEFAULT'', ''default'', ''''),
         (''INTERIORCUBE'', ''interiorcube'', '''')]),
      (''CHARACTER'',
        [(''ALPHA'', ''alpha'', ''''), (''CAC'', ''cac'', ''''),
         (''CLOTH_ROPA'', ''cloth_ropa'', ''''),
         (''CLOTH_STAMP_ROPA'', ''cloth_stamp_ropa'', ''''),
         (''CLOTH_STAMP'', ''cloth_stamp'', ''''), (''CLOTH'', ''cloth'', ''''),
         (''DEFAULT_CLOTH_ROPA'', ''default_cloth_ropa'', ''''),
         (''DEFAULT_CLOTH'', ''default_cloth'', ''''),
         (''DEFAULT_HAIR_ROPA'', ''default_hair_ropa'', ''''),
         (''DEFAULT_HAIR'', ''default_hair'', ''''), (''DEFAULT_HOM'', ''default_hom'', ''''),
         (''DEFAULT_LIGHT'', ''default_light'', ''''),
         (''DEFAULT_SKATEBOARD'', ''default_skateboard'', ''''),
         (''DEFAULT_SKIN'', ''default_skin'', ''''), (''DEFAULT'', ''default'', ''''),
         (''FACE'', ''face'', ''''), (''HAIR_ROPA'', ''hair_ropa'', ''''),
         (''HAIR'', ''hair'', ''''), (''LEATHER'', ''leather'', ''''),
         (''LIVINGWORLD_DYNAMICOBJ'', ''livingworld_dynamicobj'', ''''),
         (''LIVINGWORLD_PEDESTRIANS_STAMP'', ''livingworld_pedestrians_stamp'', ''''),
         (''LIVINGWORLD_PEDESTRIANS'', ''livingworld_pedestrians'', ''''),
         (''LIVINGWORLD_VEHICLES_GLASS'', ''livingworld_vehicles_glass'', ''''),
         (''LIVINGWORLD_VEHICLES'', ''livingworld_vehicles'', ''''),
         (''LIVINGWORLD'', ''livingworld'', ''''), (''SHIFT'', ''shift'', ''''),
         (''SKIN'', ''skin'', '''')]),
      (''CHARATTRIBUTES'',
        [(''DEFAULT'', ''default'', '''')]),
      (''DEFAULTENVIRONMENT'',
        [(''DEFAULT'', ''default'', ''''), (''TRANSPARENT'', ''transparent'', '''')]),
      (''DMOATTRIBUTES'',
        [(''DEFAULT'', ''default'', '''')]),
      (''DYNAMICOBJECT'',
        [(''ALPHATEST'', ''alphatest'', ''''), (''DEFAULT'', ''default'', '''')]),
      (''ENVATTRIBUTES'',
        [(''DEFAULT'', ''default'', '''')]),
      (''ENVIRONMENT'',
        [(''DECAL_SIMPLE'', ''decal_simple'', ''''),
         (''DECAL_TILEABLE_SIMPLE'', ''decal_tileable_simple'', ''''),
         (''DECAL_TILEABLE'', ''decal_tileable'', ''''), (''DECAL'', ''decal'', ''''),
         (''DECAL2'', ''decal2'', ''''), (''DEFAULT'', ''default'', ''''),
         (''REFLECTIVE_SIMPLE'', ''reflective_simple'', ''''),
         (''REFLECTIVE_TRANS'', ''reflective_trans'', ''''),
         (''REFLECTIVE'', ''reflective'', ''''), (''TRANSPARENT'', ''transparent'', '''')]),
      (''ENVIRONMENTPARK'',
        [(''ALPHATEST'', ''alphatest'', ''''), (''DECAL'', ''decal'', ''''),
         (''DIFFUSE'', ''diffuse'', '''')]),
      (''ENVIRONMENTSIMPLE'',
        [(''ALPHATEST'', ''alphatest'', ''''), (''BACKGROUND'', ''background'', ''''),
         (''DEFAULT'', ''default'', ''''), (''DIFFUSE'', ''diffuse'', '''')]),
      (''FOG'',
        [(''DEFAULT'', ''default'', ''''), (''FOG_BACKUP'', ''fog_backup'', ''''),
         (''FOG_BIGEVENT'', ''fog_bigevent'', ''''), (''FOG_CAS'', ''fog_cas'', ''''),
         (''FOG_COOL'', ''fog_cool'', ''''), (''FOG_DARK'', ''fog_dark'', ''''),
         (''FOG_DEF_FAR'', ''fog_def_far'', ''''), (''FOG_DEFAULT'', ''fog_default'', ''''),
         (''FOG_FEMAIN'', ''fog_femain'', ''''), (''FOG_FINANCIAL'', ''fog_financial'', ''''),
         (''FOG_HAZE'', ''fog_haze'', ''''), (''FOG_INSIDE'', ''fog_inside'', ''''),
         (''FOG_LIGHT'', ''fog_light'', ''''), (''FOG_OLDTOWN'', ''fog_oldtown'', ''''),
         (''FOG_PROJECTS'', ''fog_projects'', ''''), (''FOG_REZ'', ''fog_rez'', ''''),
         (''FOG_SLAPPY'', ''fog_slappy'', ''''),
         (''FOG_SLAPPYWAREHOUSE'', ''fog_slappywarehouse'', ''''),
         (''FOG_SOHO'', ''fog_soho'', ''''), (''FOG_TRICKGUIDE'', ''fog_trickguide'', ''''),
         (''FOG_WARM'', ''fog_warm'', ''''), (''FOG_WATERFRONT'', ''fog_waterfront'', '''')]),
      (''GLARE'',
        [(''DEFAULT'', ''default'', '''')]),
      (''GODRAY'',
        [(''DEFAULT'', ''default'', ''''), (''SPOTLIGHT'', ''spotlight'', '''')]),
      (''INCANDESCENT'',
        [(''BACKLIT'', ''backlit'', ''''), (''BACKLITUVSCROLL'', ''backlituvscroll'', ''''),
         (''DEFAULT'', ''default'', ''''), (''TRANSPARENT'', ''transparent'', ''''),
         (''VIDEOSCREEN'', ''videoscreen'', '''')]),
      (''NAMEMAP'',
        [(''DEFAULT'', ''default'', '''')]),
      (''OCEAN'',
        [(''DEFAULT'', ''default'', ''''), (''REFLECTION'', ''reflection'', '''')]),
      (''PROXYWORLD'',
        [(''DEFAULT'', ''default'', '''')]),
      (''SKY'',
        [(''DEFAULT'', ''default'', ''''), (''SKY_70S'', ''sky_70s'', ''''),
         (''SKY_BKUP1'', ''sky_bkup1'', ''''), (''SKY_BKUP2'', ''sky_bkup2'', ''''),
         (''SKY_BKUP3'', ''sky_bkup3'', ''''), (''SKY_CREATURE'', ''sky_creature'', ''''),
         (''SKY_DANNY'', ''sky_danny'', ''''), (''SKY_DARK'', ''sky_dark'', ''''),
         (''SKY_DEFAULT'', ''sky_default'', ''''), (''SKY_FE2'', ''sky_fe2'', ''''),
         (''SKY_FEMAIN'', ''sky_femain'', ''''), (''SKY_FESHIP'', ''sky_feship'', ''''),
         (''SKY_FESTART'', ''sky_festart'', ''''), (''SKY_FINANCIAL'', ''sky_financial'', ''''),
         (''SKY_LIGHT'', ''sky_light'', ''''), (''SKY_OLDTOWN'', ''sky_oldtown'', ''''),
         (''SKY_PROJECTS'', ''sky_projects'', ''''), (''SKY_PURE'', ''sky_pure'', ''''),
         (''SKY_REZ'', ''sky_rez'', ''''), (''SKY_SLAPPY'', ''sky_slappy'', ''''),
         (''SKY_SOHO'', ''sky_soho'', ''''), (''SKY_SVM'', ''sky_svm'', ''''),
         (''SKY_WATERFRONT'', ''sky_waterfront'', '''')]),
      (''TERRAIN'',
        [(''DECAL'', ''decal'', ''''), (''DEFAULT'', ''default'', '''')]),
      (''TRAFFICLIGHT'',
        [(''DEFAULT'', ''default'', ''''), (''ONE'', ''one'', ''''), (''TWO'', ''two'', '''')]),
      (''TREE'',
        [(''DEFAULT'', ''default'', '''')]),
      (''VEHICLE'',
        [(''DEFAULT'', ''default'', ''''), (''LIGHT'', ''light'', ''''),
         (''LOD01'', ''lod01'', '''')]),
      (''VISUALINDICATOR'',
        [(''DEFAULT'', ''default'', '''')]),
      (''WATER'',
        [(''ALPHA'', ''alpha'', ''''), (''DEFAULT'', ''default'', ''''),
         (''FLOWING'', ''flowing'', ''''), (''FLOWINGALPHA'', ''flowingalpha'', ''''),
         (''SKATEPARK_ALPHA'', ''skatepark_alpha'', ''''), (''SKATEPARK'', ''skatepark'', '''')])]"

definition MATERIAL_SUBCLASS_FALLBACK :: "enum_item list" where
  "MATERIAL_SUBCLASS_FALLBACK = [(''DEFAULT'', ''default'', '''')]"

text \<open>The dict \<open>MATERIAL_SUBCLASSES\<close>: \<open>k in MATERIAL_SUBCLASSES\<close> is
  \<open>MATERIAL_SUBCLASSES k \<noteq> None\<close>.\<close>

definition MATERIAL_SUBCLASSES :: "string \<rightharpoonup> enum_item list" where
  "MATERIAL_SUBCLASSES = map_of MATERIAL_SUBCLASSES_items"

text \<open>
  \<open>BlenroseMaterialSettings\<close>. The UV enums and the collision enums are kept as the
  identifier string that reading the property returns. \<open>material_subclass\<close> is an enum
  whose items come from a callback; as the comment on its \<open>default=0\<close> says, such a
  property is an integer index into whatever list the callback returns, and the host
  stores that integer. The property \<open>notes\<close> is the field \<open>material_notes\<close>.
\<close>

record settings =
  enabled :: bool
  material_class :: string
  material_subclass :: nat
  material_notes :: string
  diffuse_tex :: "image option"
  diffuse_uv :: string
  lightmap_tex :: "image option"
  lightmap_uv :: string
  specular_tex :: "image option"
  specular_uv :: string
  normal_tex :: "image option"
  normal_uv :: string
  detail_tex :: "image option"
  detail_uv :: string
  macro_overlay_tex :: "image option"
  macro_overlay_uv :: string
  environment_tex :: "image option"
  environment_uv :: string
  decal_tex :: "image option"
  decal_uv :: string
  transparent_tex :: "image option"
  transparent_uv :: string
  noise_tex :: "image option"
  noise_uv :: string
  detail_normal_uv_scale :: real
  macro_overlay_opacity :: real
  macro_overlay_uv_scale :: real
  embedded_decal :: real
  physics_surface :: string
  audio_surface :: string
  surface_pattern :: string

text \<open>\<open>uv_channel_items\<close>: the argument is \<open>sorted(uv_names)\<close>, the distinct UV map
  names of the scene's meshes in sorted order (empty when there is none or the scan
  failed).\<close>

definition uv_channel_items :: "string list \<Rightarrow> enum_item list" where
  "uv_channel_items sorted_uv_names =
     (if sorted_uv_names = [] then
        [(''UV0'', ''UV0'', ''UV0''), (''UV1'', ''UV1'', ''UV1'')]
      else map (\<lambda>name. (name, name, '''')) sorted_uv_names)"

definition material_subclass_items :: "settings \<Rightarrow> enum_item list" where
  "material_subclass_items self =
     (case MATERIAL_SUBCLASSES (material_class self) of
        Some items \<Rightarrow> if material_class self \<noteq> [] then items else MATERIAL_SUBCLASS_FALLBACK
      | None \<Rightarrow> MATERIAL_SUBCLASS_FALLBACK)"

text \<open>
  The host side of the two classification properties. Reading a callback-driven enum
  gives the identifier of the item at the stored index in the list the callback returns
  now, and the empty string when the index matches no item. \<open>material_class\<close> is declared
  without an \<open>update\<close> callback, so assigning it stores the new class and runs no code
  of this program.
\<close>

definition get_material_subclass :: "settings \<Rightarrow> string" where
  "get_material_subclass self =
     (let items = material_subclass_items self
      in if material_subclass self < length items
         then fst (items ! material_subclass self) else '''')"

definition set_material_class :: "string \<Rightarrow> settings \<Rightarrow> settings" where
  "set_material_class c self = self\<lparr>material_class := c\<rparr>"

text \<open>The invariant of the specification: the subclass read from the settings is an
  identifier of the current class's table.\<close>

definition subclass_valid :: "settings \<Rightarrow> bool" where
  "subclass_valid self =
     (get_material_subclass self \<in> set (map fst (material_subclass_items self)))"

text \<open>The property defaults of \<open>BlenroseMaterialSettings\<close>, with the fallback UV items
  (\<open>default=0\<close> is UV0, \<open>default=1\<close> is UV1).\<close>

definition default_settings :: settings where
  "default_settings =
     \<lparr>enabled = False, material_class = ''ENVIRONMENT'', material_subclass = 0, material_notes = '''',
      diffuse_tex = None, diffuse_uv = ''UV0'',
      lightmap_tex = None, lightmap_uv = ''UV1'',
      specular_tex = None, specular_uv = ''UV0'',
      normal_tex = None, normal_uv = ''UV0'',
      detail_tex = None, detail_uv = ''UV0'',
      macro_overlay_tex = None, macro_overlay_uv = ''UV0'',
      environment_tex = None, environment_uv = ''UV0'',
      decal_tex = None, decal_uv = ''UV0'',
      transparent_tex = None, transparent_uv = ''UV0'',
      noise_tex = None, noise_uv = ''UV0'',
      detail_normal_uv_scale = 8, macro_overlay_opacity = 1,
      macro_overlay_uv_scale = 3 / 10, embedded_decal = 1,
      physics_surface = ''0'', audio_surface = ''0'', surface_pattern = ''0''\<rparr>"

text \<open>\<open>getattr(settings, prop_name, None)\<close> and \<open>setattr(settings, prop_name, v)\<close> on the
  texture and UV properties, by property name.\<close>

definition getattr_tex :: "settings \<Rightarrow> string \<Rightarrow> image option" where
  "getattr_tex self prop_name =
     (if prop_name = ''diffuse_tex'' then diffuse_tex self
      else if prop_name = ''lightmap_tex'' then lightmap_tex self
      else if prop_name = ''specular_tex'' then specular_tex self
      else if prop_name = ''normal_tex'' then normal_tex self
      else if prop_name = ''detail_tex'' then detail_tex self
      else if prop_name = ''macro_overlay_tex'' then macro_overlay_tex self
      else if prop_name = ''environment_tex'' then environment_tex self
      else if prop_name = ''decal_tex'' then decal_tex self
      else if prop_name = ''transparent_tex'' then transparent_tex self
      else if prop_name = ''noise_tex'' then noise_tex self
      else None)"

definition getattr_uv :: "settings \<Rightarrow> string \<Rightarrow> string" where
  "getattr_uv self prop_name =
     (if prop_name = ''diffuse_uv'' then diffuse_uv self
      else if prop_name = ''lightmap_uv'' then lightmap_uv self
      else if prop_name = ''specular_uv'' then specular_uv self
      else if prop_name = ''normal_uv'' then normal_uv self
      else if prop_name = ''detail_uv'' then detail_uv self
      else if prop_name = ''macro_overlay_uv'' then macro_overlay_uv self
      else if prop_name = ''environment_uv'' then environment_uv self
      else if prop_name = ''decal_uv'' then decal_uv self
      else if prop_name = ''transparent_uv'' then transparent_uv self
      else if prop_name = ''noise_uv'' then noise_uv self
      else '''')"

definition store_tex :: "string \<Rightarrow> image option \<Rightarrow> settings \<Rightarrow> settings" where
  "store_tex prop_name v self =
     (if prop_name = ''diffuse_tex'' then self\<lparr>diffuse_tex := v\<rparr>
      else if prop_name = ''lightmap_tex'' then self\<lparr>lightmap_tex := v\<rparr>
      else if prop_name = ''specular_tex'' then self\<lparr>specular_tex := v\<rparr>
      else if prop_name = ''normal_tex'' then self\<lparr>normal_tex := v\<rparr>
      else if prop_name = ''detail_tex'' then self\<lparr>detail_tex := v\<rparr>
      else if prop_name = ''macro_overlay_tex'' then self\<lparr>macro_overlay_tex := v\<rparr>
      else if prop_name = ''environment_tex'' then self\<lparr>environment_tex := v\<rparr>
      else if prop_name = ''decal_tex'' then self\<lparr>decal_tex := v\<rparr>
      else if prop_name = ''transparent_tex'' then self\<lparr>transparent_tex := v\<rparr>
      else if prop_name = ''noise_tex'' then self\<lparr>noise_tex := v\<rparr>
      else self)"

definition store_uv :: "string \<Rightarrow> string \<Rightarrow> settings \<Rightarrow> settings" where
  "store_uv prop_name v self =
     (if prop_name = ''diffuse_uv'' then self\<lparr>diffuse_uv := v\<rparr>
      else if prop_name = ''lightmap_uv'' then self\<lparr>lightmap_uv := v\<rparr>
      else if prop_name = ''specular_uv'' then self\<lparr>specular_uv := v\<rparr>
      else if prop_name = ''normal_uv'' then self\<lparr>normal_uv := v\<rparr>
      else if prop_name = ''detail_uv'' then self\<lparr>detail_uv := v\<rparr>
      else if prop_name = ''macro_overlay_uv'' then self\<lparr>macro_overlay_uv := v\<rparr>
      else if prop_name = ''environment_uv'' then self\<lparr>environment_uv := v\<rparr>
      else if prop_name = ''decal_uv'' then self\<lparr>decal_uv := v\<rparr>
      else if prop_name = ''transparent_uv'' then self\<lparr>transparent_uv := v\<rparr>
      else if prop_name = ''noise_uv'' then self\<lparr>noise_uv := v\<rparr>
      else self)"

section \<open>Serialising a material (\<open>_extract_blenrose_material_data\<close>)\<close>

text \<open>\<open>str.lower()\<close> on the ASCII identifiers of the tables.\<close>

definition char_lower :: "char \<Rightarrow> char" where
  "char_lower c =
     (case map_of (zip ''ABCDEFGHIJKLMNOPQRSTUVWXYZ'' ''abcdefghijklmnopqrstuvwxyz'') c of
        Some l \<Rightarrow> l
      | None \<Rightarrow> c)"

definition py_lower :: "string \<Rightarrow> string" where
  "py_lower s = map char_lower s"

fun index_of :: "('a \<Rightarrow> bool) \<Rightarrow> 'a list \<Rightarrow> nat option" where
  "index_of P [] = None"
| "index_of P (x # xs) = (if P x then Some 0 else map_option Suc (index_of P xs))"

text \<open>A value the export code reads with \<open>getattr\<close> and tests with \<open>isinstance\<close>.\<close>

datatype enum_value = EnumStr string | EnumInt int

text \<open>The block "Handle both string (identifier) and int (index) cases": a string is
  replaced by its position among the identifiers, or by 0 when the loop ends without
  \<open>break\<close>.\<close>

definition enum_index :: "enum_item list \<Rightarrow> enum_value \<Rightarrow> int" where
  "enum_index items v =
     (case v of
        EnumStr ident \<Rightarrow>
          (case index_of (\<lambda>item. fst item = ident) items of
             Some idx \<Rightarrow> int idx
           | None \<Rightarrow> 0)
      | EnumInt i \<Rightarrow> i)"

text \<open>Python's \<open>xs[i]\<close>: a negative index counts from the end.\<close>

definition py_getitem :: "'a list \<Rightarrow> int \<Rightarrow> py_error + 'a" where
  "py_getitem xs i =
     (if 0 \<le> i \<and> i < int (length xs) then Inr (xs ! nat i)
      else if i < 0 \<and> - int (length xs) \<le> i then Inr (xs ! nat (int (length xs) + i))
      else Inl IndexError)"

definition resolve_subclass_name :: "string \<Rightarrow> enum_value \<Rightarrow> py_error + string" where
  "resolve_subclass_name material_class_id v =
     (case MATERIAL_SUBCLASSES material_class_id of
        None \<Rightarrow> Inr ''default''
      | Some subclass_items \<Rightarrow>
          let subclass_index = enum_index subclass_items v
          in if subclass_index < int (length subclass_items) then
               (case py_getitem subclass_items subclass_index of
                  Inl e \<Rightarrow> Inl e
                | Inr item \<Rightarrow> Inr (fst item))
             else Inr ''default'')"

text \<open>\<open>get_image_path\<close>; \<open>bpy.path.abspath\<close> is the host's and is a parameter.\<close>

definition get_image_path :: "(string \<Rightarrow> string) \<Rightarrow> image option \<Rightarrow> string option" where
  "get_image_path abspath img =
     (case img of
        None \<Rightarrow> None
      | Some i \<Rightarrow> if filepath i \<noteq> [] then Some (abspath (filepath i)) else None)"

definition get_uv_name :: "enum_item list \<Rightarrow> enum_value \<Rightarrow> py_error + string" where
  "get_uv_name uv_enum_items v =
     (let uv_index = enum_index uv_enum_items v
      in if uv_index < int (length uv_enum_items) then
           (case py_getitem uv_enum_items uv_index of
              Inl e \<Rightarrow> Inl e
            | Inr item \<Rightarrow> Inr (fst item))
         else Inr ''UVMap'')"

record texture_entry =
  image_path :: "string option"
  uv :: string

definition channel_configs :: "(string \<times> string \<times> string) list" where
  "channel_configs =
     [(''diffuse'', ''diffuse_tex'', ''diffuse_uv''),
      (''lightmap'', ''lightmap_tex'', ''lightmap_uv''),
      (''specular'', ''specular_tex'', ''specular_uv''),
      (''normal'', ''normal_tex'', ''normal_uv''),
      (''detail'', ''detail_tex'', ''detail_uv''),
      (''macro_overlay'', ''macro_overlay_tex'', ''macro_overlay_uv''),
      (''environment'', ''environment_tex'', ''environment_uv''),
      (''decal'', ''decal_tex'', ''decal_uv''),
      (''transparent'', ''transparent_tex'', ''transparent_uv''),
      (''noise'', ''noise_tex'', ''noise_uv'')]"

text \<open>\<open>_build_textures_dict\<close>: the dict is an association list in insertion order; the
  loop stops at the first exception.\<close>

fun build_textures_loop ::
  "(string \<Rightarrow> string) \<Rightarrow> enum_item list \<Rightarrow> settings \<Rightarrow> (string \<times> string \<times> string) list \<Rightarrow>
   (string \<times> texture_entry) list \<Rightarrow> py_error + (string \<times> texture_entry) list" where
  "build_textures_loop abspath uv_enum_items self [] textures = Inr textures"
| "build_textures_loop abspath uv_enum_items self ((channel_name, tex_prop, uv_prop) # rest) textures =
     (let tex = getattr_tex self tex_prop;
          path = get_image_path abspath tex
      in if (path \<noteq> None \<and> path \<noteq> Some []) \<or> tex \<noteq> None then
           (case get_uv_name uv_enum_items (EnumStr (getattr_uv self uv_prop)) of
              Inl e \<Rightarrow> Inl e
            | Inr uv_name \<Rightarrow>
                build_textures_loop abspath uv_enum_items self rest
                  (textures @ [(channel_name, \<lparr>image_path = path, uv = uv_name\<rparr>)]))
         else build_textures_loop abspath uv_enum_items self rest textures)"

definition build_textures_dict ::
  "(string \<Rightarrow> string) \<Rightarrow> enum_item list \<Rightarrow> settings \<Rightarrow> py_error + (string \<times> texture_entry) list" where
  "build_textures_dict abspath uv_enum_items self =
     build_textures_loop abspath uv_enum_items self channel_configs []"

record material_data =
  material_name :: string
  data_enabled :: bool
  data_material_class :: string
  data_material_subclass :: string
  data_notes :: string
  data_textures :: "(string \<times> texture_entry) list"
  data_detail_normal_uv_scale :: real
  data_macro_overlay_opacity :: real
  data_macro_overlay_uv_scale :: real
  data_embedded_decal :: real
  data_physics_surface :: string
  data_audio_surface :: string
  data_surface_pattern :: string

text \<open>\<open>_extract_blenrose_material_data\<close>, on the settings of the material; \<open>abspath\<close> and
  the scene's sorted UV names are the host's.\<close>

definition extract_blenrose_material_data ::
  "(string \<Rightarrow> string) \<Rightarrow> string list \<Rightarrow> settings \<Rightarrow> py_error + material_data" where
  "extract_blenrose_material_data abspath sorted_uv_names self =
     (case resolve_subclass_name (material_class self) (EnumStr (get_material_subclass self)) of
        Inl e \<Rightarrow> Inl e
      | Inr material_subclass_name \<Rightarrow>
          let material_name_export =
                py_lower (material_class self) @ ''.'' @ py_lower material_subclass_name
          in (case build_textures_dict abspath (uv_channel_items sorted_uv_names) self of
                Inl e \<Rightarrow> Inl e
              | Inr texs \<Rightarrow>
                  Inr \<lparr>material_name = material_name_export,
                       data_enabled = enabled self,
                       data_material_class = material_class self,
                       data_material_subclass = material_subclass_name,
                       data_notes = material_notes self,
                       data_textures = texs,
                       data_detail_normal_uv_scale = detail_normal_uv_scale self,
                       data_macro_overlay_opacity = macro_overlay_opacity self,
                       data_macro_overlay_uv_scale = macro_overlay_uv_scale self,
                       data_embedded_decal = embedded_decal self,
                       data_physics_surface = physics_surface self,
                       data_audio_surface = audio_surface self,
                       data_surface_pattern = surface_pattern self\<rparr>))"

text \<open>Two concrete settings records: a WATER material whose stored subclass index is 5
  (SKATEPARK), and an ENVIRONMENT material whose stored index is 5 (DEFAULT).\<close>

definition water_skatepark :: settings where
  "water_skatepark = default_settings\<lparr>material_class := ''WATER'', material_subclass := 5\<rparr>"

definition environment_default :: settings where
  "environment_default = default_settings\<lparr>material_subclass := 5\<rparr>"

text \<open>The WATER material after its class was changed to TREE: the stored index is
  still 5, and the table of TREE has one entry.\<close>

definition tree_after_water :: settings where
  "tree_after_water = set_material_class ''TREE'' water_skatepark"
section \<open>The shading graph\<close>

text \<open>
  The node tree belongs to the host. \<open>nt.nodes\<close> is a collection keyed by node name, and
  the host keeps the names of a tree distinct, so it is a map from names to nodes; a node
  is known by its name, which is what \<open>nt.nodes.get(name)\<close> and
  \<open>node.name.startswith("BR_")\<close> look at. A socket is known by its node and its position
  in \<open>node.inputs\<close> or \<open>node.outputs\<close>: two inputs of a Mix Shader share the name
  "Shader". A link always joins an output of one node of the tree to an input of another.
  Only the node attributes that this program reads or writes are kept.

  An input socket has a kind, which fixes what its \<open>default_value\<close> takes: a float
  socket holds a number, a vector socket three numbers, a colour socket four (red,
  green, blue, alpha); a shader socket has no \<open>default_value\<close> at all; every other
  kind (integer, boolean, string, ...) holds neither a float nor a sequence. The program
  assigns a Python float or a tuple of three floats; \<open>HostDefault\<close> is the value the
  host gave the socket when it created the node, and is never assigned.
\<close>

datatype socket_value = HostDefault | FloatValue real | VectorValue real real real

datatype socket_kind = FloatSocket | VectorSocket | ColorSocket | ShaderSocket | OtherSocket

record socket =
  socket_name :: string
  socket_kind :: socket_kind
  default_value :: socket_value

record node =
  node_type :: string
  label :: string
  location :: "int \<times> int"
  node_image :: "image option"
  uv_map :: string
  blend_type :: string
  inputs :: "socket list"
  outputs :: "string list"

record link =
  from_node :: string
  from_socket :: nat
  to_node :: string
  to_socket :: nat

record node_tree =
  nodes :: "string \<rightharpoonup> node"
  links :: "link list"

record material =
  mat_pointer :: nat
  use_nodes :: bool
  node_tree :: "node_tree option"
  blenrose_settings :: settings

text \<open>A statement that mutates the tree and may raise: the result carries the exception,
  if any, and the tree as the statement left it.\<close>

type_synonym stmt = "node_tree \<Rightarrow> py_error option \<times> node_tree"

text \<open>Statements in sequence; an exception ends the sequence.\<close>

fun run :: "stmt list \<Rightarrow> stmt" where
  "run [] nt = (None, nt)"
| "run (f # fs) nt =
     (case f nt of
        (None, nt') \<Rightarrow> run fs nt'
      | (Some e, nt') \<Rightarrow> (Some e, nt'))"

subsection \<open>The host's operations on a tree\<close>

text \<open>
  What \<open>nt.nodes.new(bl_idname)\<close> creates, for the ten node classes the program asks
  for: the \<open>type\<close>, the names and kinds of the input sockets and the names of the
  output sockets (those of Blender 3.0, the version \<open>bl_info\<close> names), and the default
  name of the new node.
\<close>

definition host_node :: "string \<Rightarrow> (string \<times> socket_kind) list \<Rightarrow> string list \<Rightarrow> node" where
  "host_node ty ins outs =
     \<lparr>node_type = ty, label = '''', location = (0, 0), node_image = None, uv_map = '''',
      blend_type = ''MIX'',
      inputs = map (\<lambda>i. \<lparr>socket_name = fst i, socket_kind = snd i,
                           default_value = HostDefault\<rparr>) ins,
      outputs = outs\<rparr>"

definition output_material_template :: node where
  "output_material_template =
     host_node ''OUTPUT_MATERIAL''
       [(''Surface'', ShaderSocket), (''Volume'', ShaderSocket),
        (''Displacement'', VectorSocket)] []"

definition principled_bsdf_template :: node where
  "principled_bsdf_template =
     host_node ''BSDF_PRINCIPLED''
       [(''Base Color'', ColorSocket), (''Subsurface'', FloatSocket),
        (''Subsurface Radius'', VectorSocket), (''Subsurface Color'', ColorSocket),
        (''Subsurface IOR'', FloatSocket), (''Subsurface Anisotropy'', FloatSocket),
        (''Metallic'', FloatSocket), (''Specular'', FloatSocket),
        (''Specular Tint'', FloatSocket), (''Roughness'', FloatSocket),
        (''Anisotropic'', FloatSocket), (''Anisotropic Rotation'', FloatSocket),
        (''Sheen'', FloatSocket), (''Sheen Tint'', FloatSocket),
        (''Clearcoat'', FloatSocket), (''Clearcoat Roughness'', FloatSocket),
        (''IOR'', FloatSocket), (''Transmission'', FloatSocket),
        (''Transmission Roughness'', FloatSocket), (''Emission'', ColorSocket),
        (''Emission Strength'', FloatSocket), (''Alpha'', FloatSocket),
        (''Normal'', VectorSocket), (''Clearcoat Normal'', VectorSocket),
        (''Tangent'', VectorSocket)]
       [''BSDF'']"

definition mix_shader_template :: node where
  "mix_shader_template =
     host_node ''MIX_SHADER''
       [(''Fac'', FloatSocket), (''Shader'', ShaderSocket), (''Shader'', ShaderSocket)]
       [''Shader'']"

definition emission_template :: node where
  "emission_template =
     host_node ''EMISSION'' [(''Color'', ColorSocket), (''Strength'', FloatSocket)]
       [''Emission'']"

definition uv_map_template :: node where
  "uv_map_template = host_node ''UVMAP'' [] [''UV'']"

definition tex_image_template :: node where
  "tex_image_template =
     host_node ''TEX_IMAGE'' [(''Vector'', VectorSocket)] [''Color'', ''Alpha'']"

definition normal_map_template :: node where
  "normal_map_template =
     host_node ''NORMAL_MAP'' [(''Strength'', FloatSocket), (''Color'', ColorSocket)]
       [''Normal'']"

definition separate_rgb_template :: node where
  "separate_rgb_template =
     host_node ''SEPRGB'' [(''Image'', ColorSocket)] [''R'', ''G'', ''B'']"

definition mapping_template :: node where
  "mapping_template =
     host_node ''MAPPING''
       [(''Vector'', VectorSocket), (''Location'', VectorSocket),
        (''Rotation'', VectorSocket), (''Scale'', VectorSocket)]
       [''Vector'']"

definition mix_rgb_template :: node where
  "mix_rgb_template =
     host_node ''MIX_RGB''
       [(''Fac'', FloatSocket), (''Color1'', ColorSocket), (''Color2'', ColorSocket)]
       [''Color'']"

definition new_node_template :: "string \<Rightarrow> (string \<times> node) option" where
  "new_node_template bl_idname =
     (if bl_idname = ''ShaderNodeOutputMaterial'' then
        Some (''Material Output'', output_material_template)
      else if bl_idname = ''ShaderNodeBsdfPrincipled'' then
        Some (''Principled BSDF'', principled_bsdf_template)
      else if bl_idname = ''ShaderNodeMixShader'' then Some (''Mix Shader'', mix_shader_template)
      else if bl_idname = ''ShaderNodeEmission'' then Some (''Emission'', emission_template)
      else if bl_idname = ''ShaderNodeUVMap'' then Some (''UV Map'', uv_map_template)
      else if bl_idname = ''ShaderNodeTexImage'' then Some (''Image Texture'', tex_image_template)
      else if bl_idname = ''ShaderNodeNormalMap'' then Some (''Normal Map'', normal_map_template)
      else if bl_idname = ''ShaderNodeSeparateRGB'' then
        Some (''Separate RGB'', separate_rgb_template)
      else if bl_idname = ''ShaderNodeMapping'' then Some (''Mapping'', mapping_template)
      else if bl_idname = ''ShaderNodeMixRGB'' then Some (''Mix'', mix_rgb_template)
      else None)"

text \<open>
  \<open>nt.nodes.new(bl_idname)\<close>. The new node enters the tree under its default name. (The
  host would pick another name if that one were taken; \<open>_build_blenrose_node_tree\<close>
  creates every node in a cleared tree and renames a node before it creates the next one
  of the same class, so the name is always free there.)
\<close>

definition nodes_new :: "string \<Rightarrow> stmt" where
  "nodes_new bl_idname nt =
     (case new_node_template bl_idname of
        None \<Rightarrow> (Some RuntimeError, nt)
      | Some (default_name, n) \<Rightarrow> (None, nt\<lparr>nodes := (nodes nt)(default_name \<mapsto> n)\<rparr>))"

text \<open>\<open>node.name = new\<close> for the node now called \<open>old\<close>; its links follow it.\<close>

definition set_name :: "string \<Rightarrow> string \<Rightarrow> stmt" where
  "set_name old new nt =
     (case nodes nt old of
        None \<Rightarrow> (Some KeyError, nt)
      | Some n \<Rightarrow>
          (None,
           \<lparr>nodes = ((nodes nt)(old := None))(new \<mapsto> n),
            links = map (\<lambda>l. l\<lparr>from_node := (if from_node l = old then new else from_node l),
                                to_node := (if to_node l = old then new else to_node l)\<rparr>)
                      (links nt)\<rparr>))"

text \<open>An attribute assignment on the node called \<open>k\<close>.\<close>

definition modify_node :: "string \<Rightarrow> (node \<Rightarrow> node) \<Rightarrow> stmt" where
  "modify_node k f nt =
     (case nodes nt k of
        None \<Rightarrow> (Some KeyError, nt)
      | Some n \<Rightarrow> (None, nt\<lparr>nodes := (nodes nt)(k \<mapsto> f n)\<rparr>))"

definition set_location :: "string \<Rightarrow> int \<times> int \<Rightarrow> stmt" where
  "set_location k loc = modify_node k (\<lambda>n. n\<lparr>location := loc\<rparr>)"

definition set_label :: "string \<Rightarrow> string \<Rightarrow> stmt" where
  "set_label k l = modify_node k (\<lambda>n. n\<lparr>label := l\<rparr>)"

definition set_image :: "string \<Rightarrow> image option \<Rightarrow> stmt" where
  "set_image k img = modify_node k (\<lambda>n. n\<lparr>node_image := img\<rparr>)"

definition set_blend_type :: "string \<Rightarrow> string \<Rightarrow> stmt" where
  "set_blend_type k b = modify_node k (\<lambda>n. n\<lparr>blend_type := b\<rparr>)"

text \<open>\<open>if uv_name: node.uv_map = uv_name\<close>: the empty string is falsy.\<close>

definition set_uv_map_if :: "string \<Rightarrow> string \<Rightarrow> stmt" where
  "set_uv_map_if k uv_name =
     (if uv_name \<noteq> [] then modify_node k (\<lambda>n. n\<lparr>uv_map := uv_name\<rparr>) else (\<lambda>nt. (None, nt)))"

text \<open>\<open>node.inputs[name]\<close> is the first input of that name; a missing name is a KeyError.\<close>

definition input_index :: "node \<Rightarrow> string \<Rightarrow> nat option" where
  "input_index n name = index_of (\<lambda>s. socket_name s = name) (inputs n)"

definition output_index :: "node \<Rightarrow> string \<Rightarrow> nat option" where
  "output_index n name = index_of (\<lambda>s. s = name) (outputs n)"

text \<open>
  What the host answers to \<open>socket.default_value = v\<close>, by the kind of the socket:
  \<open>None\<close> when it stores the value, and otherwise the exception. A shader socket has
  no such attribute; a number where a sequence is expected, or a sequence where a number
  is expected, is a TypeError; a sequence of three numbers for the four of a colour is a
  ValueError.
\<close>

fun assign_default_value :: "socket_kind \<Rightarrow> socket_value \<Rightarrow> py_error option" where
  "assign_default_value ShaderSocket v = Some AttributeError"
| "assign_default_value FloatSocket (FloatValue x) = None"
| "assign_default_value FloatSocket v = Some TypeError"
| "assign_default_value VectorSocket (VectorValue x y z) = None"
| "assign_default_value VectorSocket v = Some TypeError"
| "assign_default_value ColorSocket (VectorValue x y z) = Some ValueError"
| "assign_default_value ColorSocket v = Some TypeError"
| "assign_default_value OtherSocket v = Some TypeError"

text \<open>\<open>node.inputs[name].default_value = v\<close> for the node called \<open>k\<close>.\<close>

definition set_default_value :: "string \<Rightarrow> string \<Rightarrow> socket_value \<Rightarrow> stmt" where
  "set_default_value k name v nt =
     (case nodes nt k of
        None \<Rightarrow> (Some KeyError, nt)
      | Some n \<Rightarrow>
          (case input_index n name of
             None \<Rightarrow> (Some KeyError, nt)
           | Some i \<Rightarrow>
               (case assign_default_value (socket_kind (inputs n ! i)) v of
                  Some e \<Rightarrow> (Some e, nt)
                | None \<Rightarrow>
                    (None,
                     nt\<lparr>nodes := (nodes nt)
                           (k \<mapsto> n\<lparr>inputs :=
                                      (inputs n)[i := (inputs n ! i)\<lparr>default_value := v\<rparr>]\<rparr>)\<rparr>))))"

text \<open>How the program picks an input socket: \<open>node.inputs["name"]\<close> or \<open>node.inputs[i]\<close>.\<close>

datatype input_sel = Named string | At nat

definition select_input :: "node \<Rightarrow> input_sel \<Rightarrow> py_error + nat" where
  "select_input n sel =
     (case sel of
        Named name \<Rightarrow> (case input_index n name of None \<Rightarrow> Inl KeyError | Some i \<Rightarrow> Inr i)
      | At i \<Rightarrow> if i < length (inputs n) then Inr i else Inl IndexError)"

text \<open>
  \<open>nt.links.new(a.outputs[out_name], b.inputs[...])\<close>. An input socket takes one link:
  the host removes a link that already ends at the input, then adds the new one.
\<close>

definition links_new :: "string \<times> string \<Rightarrow> string \<times> input_sel \<Rightarrow> stmt" where
  "links_new src dst nt =
     (case (src, dst) of
        ((a, out_name), (b, sel)) \<Rightarrow>
          (case (nodes nt a, nodes nt b) of
             (Some na, Some nb) \<Rightarrow>
               (case output_index na out_name of
                  None \<Rightarrow> (Some KeyError, nt)
                | Some fi \<Rightarrow>
                    (case select_input nb sel of
                       Inl e \<Rightarrow> (Some e, nt)
                     | Inr ti \<Rightarrow>
                         (None,
                          nt\<lparr>links :=
                               filter (\<lambda>l. \<not> (to_node l = b \<and> to_socket l = ti)) (links nt)
                               @ [\<lparr>from_node = a, from_socket = fi,
                                   to_node = b, to_socket = ti\<rparr>]\<rparr>)))
           | _ \<Rightarrow> (Some KeyError, nt)))"

text \<open>\<open>nt.nodes.remove(node)\<close> for every node whose name satisfies \<open>P\<close>: the nodes go, and
  with them the links that touch them.\<close>

definition remove_nodes_where :: "(string \<Rightarrow> bool) \<Rightarrow> node_tree \<Rightarrow> node_tree" where
  "remove_nodes_where P nt =
     \<lparr>nodes = (\<lambda>k. if P k then None else nodes nt k),
      links = filter (\<lambda>l. \<not> P (from_node l) \<and> \<not> P (to_node l)) (links nt)\<rparr>"

text \<open>\<open>input.is_linked\<close> for input \<open>i\<close> of the node called \<open>k\<close>.\<close>

definition is_linked :: "node_tree \<Rightarrow> string \<Rightarrow> nat \<Rightarrow> bool" where
  "is_linked nt k i = list_ex (\<lambda>l. to_node l = k \<and> to_socket l = i) (links nt)"

text \<open>\<open>link.from_socket.name\<close> and \<open>link.to_socket.name\<close>.\<close>

definition from_socket_name :: "node_tree \<Rightarrow> link \<Rightarrow> string option" where
  "from_socket_name nt l =
     (case nodes nt (from_node l) of
        None \<Rightarrow> None
      | Some n \<Rightarrow> if from_socket l < length (outputs n) then Some (outputs n ! from_socket l)
                  else None)"

definition to_socket_name :: "node_tree \<Rightarrow> link \<Rightarrow> string option" where
  "to_socket_name nt l =
     (case nodes nt (to_node l) of
        None \<Rightarrow> None
      | Some n \<Rightarrow> if to_socket l < length (inputs n)
                  then Some (socket_name (inputs n ! to_socket l)) else None)"

text \<open>
  \<open>mat.use_nodes = True\<close>. A material that never used nodes has no tree; the host then
  gives it its default tree, a Principled BSDF feeding a Material Output.
\<close>

definition host_default_tree :: node_tree where
  "host_default_tree =
     \<lparr>nodes = [''Principled BSDF'' \<mapsto> principled_bsdf_template,
               ''Material Output'' \<mapsto> output_material_template],
      links = [\<lparr>from_node = ''Principled BSDF'', from_socket = 0,
                to_node = ''Material Output'', to_socket = 0\<rparr>]\<rparr>"

definition enable_nodes :: "material \<Rightarrow> material" where
  "enable_nodes mat =
     mat\<lparr>use_nodes := True,
         node_tree := (case node_tree mat of
                         None \<Rightarrow> Some host_default_tree
                       | Some nt \<Rightarrow> Some nt)\<rparr>"

section \<open>Building the managed graph (\<open>_build_blenrose_node_tree\<close>)\<close>

text \<open>\<open>for node in list(nt.nodes): nt.nodes.remove(node)\<close>: every node goes, whatever its
  name, and no link is left.\<close>

definition clear_nodes :: "node_tree \<Rightarrow> node_tree" where
  "clear_nodes nt = remove_nodes_where (\<lambda>k. True) nt"

text \<open>The four lines that create a UV Map node, name it, place it and set its map.\<close>

definition new_uv_node :: "string \<Rightarrow> int \<times> int \<Rightarrow> string \<Rightarrow> stmt list" where
  "new_uv_node name loc uv_name =
     [nodes_new ''ShaderNodeUVMap'',
      set_name ''UV Map'' name,
      set_location name loc,
      set_uv_map_if name uv_name]"

text \<open>The five lines that create an Image Texture node, name it, label it, place it and
  set its image.\<close>

definition new_tex_node :: "string \<Rightarrow> string \<Rightarrow> int \<times> int \<Rightarrow> image option \<Rightarrow> stmt list" where
  "new_tex_node name lbl loc img =
     [nodes_new ''ShaderNodeTexImage'',
      set_name ''Image Texture'' name,
      set_label name lbl,
      set_location name loc,
      set_image name img]"

text \<open>The specular input is the first of three names that the Principled BSDF of the
  running host has; with none of them the texture stays unconnected.\<close>

definition specular_input_name :: "node \<Rightarrow> string option" where
  "specular_input_name bsdf =
     (if input_index bsdf ''Specular'' \<noteq> None then Some ''Specular''
      else if input_index bsdf ''Specular IOR Level'' \<noteq> None then Some ''Specular IOR Level''
      else if input_index bsdf ''Specular Tint'' \<noteq> None then Some ''Specular Tint''
      else None)"

definition connect_specular :: stmt where
  "connect_specular nt =
     (case nodes nt ''BR_BSDF'' of
        None \<Rightarrow> (Some KeyError, nt)
      | Some bsdf \<Rightarrow>
          (case specular_input_name bsdf of
             None \<Rightarrow> (None, nt)
           | Some name \<Rightarrow>
               run [nodes_new ''ShaderNodeSeparateRGB'',
                    set_location ''Separate RGB'' (-400, -200),
                    set_label ''Separate RGB'' ''Specular Extract'',
                    links_new (''BR_SpecularTex'', ''Color'') (''Separate RGB'', Named ''Image''),
                    links_new (''Separate RGB'', ''R'') (''BR_BSDF'', Named name)] nt))"

definition detail_stmts :: "settings \<Rightarrow> stmt list" where
  "detail_stmts settings =
     new_uv_node ''BR_DetailUV'' (-1000, -100) (detail_uv settings)
     @ [nodes_new ''ShaderNodeMapping'',
        set_name ''Mapping'' ''BR_DetailMapping'',
        set_location ''BR_DetailMapping'' (-800, -100),
        set_default_value ''BR_DetailMapping'' ''Scale''
          (VectorValue (detail_normal_uv_scale settings) (detail_normal_uv_scale settings) 1),
        links_new (''BR_DetailUV'', ''UV'') (''BR_DetailMapping'', Named ''Vector'')]
     @ new_tex_node ''BR_DetailTex'' ''DetailTexture'' (-600, -100) (detail_tex settings)
     @ [links_new (''BR_DetailMapping'', ''Vector'') (''BR_DetailTex'', Named ''Vector''),
        nodes_new ''ShaderNodeNormalMap'',
        set_location ''Normal Map'' (-400, -100),
        set_label ''Normal Map'' ''Detail Normal Map'',
        links_new (''BR_DetailTex'', ''Color'') (''Normal Map'', Named ''Color''),
        nodes_new ''ShaderNodeMixRGB'',
        set_location ''Mix'' (-200, 0),
        set_name ''Mix'' ''BR_NormalMix'',
        set_blend_type ''BR_NormalMix'' ''MIX'',
        set_default_value ''BR_NormalMix'' ''Fac'' (FloatValue (1 / 2)),
        links_new (''BR_NormalMap'', ''Normal'') (''BR_NormalMix'', Named ''Color1''),
        links_new (''Normal Map'', ''Normal'') (''BR_NormalMix'', Named ''Color2'')]"

definition macro_stmts :: "settings \<Rightarrow> stmt list" where
  "macro_stmts settings =
     new_uv_node ''BR_MacroOverlayUV'' (-1000, 300) (macro_overlay_uv settings)
     @ [nodes_new ''ShaderNodeMapping'',
        set_name ''Mapping'' ''BR_MacroMapping'',
        set_location ''BR_MacroMapping'' (-800, 300),
        set_default_value ''BR_MacroMapping'' ''Scale''
          (VectorValue (macro_overlay_uv_scale settings) (macro_overlay_uv_scale settings) 1),
        links_new (''BR_MacroOverlayUV'', ''UV'') (''BR_MacroMapping'', Named ''Vector'')]
     @ new_tex_node ''BR_MacroOverlayTex'' ''MacroOverlayTexture'' (-600, 300)
         (macro_overlay_tex settings)
     @ [links_new (''BR_MacroMapping'', ''Vector'') (''BR_MacroOverlayTex'', Named ''Vector''),
        nodes_new ''ShaderNodeMixRGB'',
        set_name ''Mix'' ''BR_MacroMix'',
        set_location ''BR_MacroMix'' (-400, 250),
        set_blend_type ''BR_MacroMix'' ''MIX'',
        set_default_value ''BR_MacroMix'' ''Fac'' (FloatValue (macro_overlay_opacity settings)),
        links_new (''BR_DiffuseTex'', ''Color'') (''BR_MacroMix'', Named ''Color1''),
        links_new (''BR_MacroOverlayTex'', ''Color'') (''BR_MacroMix'', Named ''Color2'')]"

text \<open>
  The statements of \<open>_build_blenrose_node_tree\<close> after the tree was cleared, in the
  order of the source. A Python variable that holds a node is the node's current name.
  \<open>base_normal_result\<close> and \<open>base_color_result\<close> are the output sockets the two
  variables end up holding.
\<close>

definition build_stmts :: "settings \<Rightarrow> stmt list" where
  "build_stmts settings =
     [nodes_new ''ShaderNodeOutputMaterial'',
      set_location ''Material Output'' (600, 0),
      nodes_new ''ShaderNodeBsdfPrincipled'',
      set_name ''Principled BSDF'' ''BR_BSDF'',
      set_location ''BR_BSDF'' (200, 0),
      nodes_new ''ShaderNodeMixShader'',
      set_name ''Mix Shader'' ''BR_MixShader'',
      set_location ''BR_MixShader'' (400, 100),
      nodes_new ''ShaderNodeEmission'',
      set_name ''Emission'' ''BR_Emission'',
      set_location ''BR_Emission'' (200, 200)]
     @ new_uv_node ''BR_DiffuseUV'' (-800, 200) (diffuse_uv settings)
     @ new_tex_node ''BR_DiffuseTex'' ''DiffuseTexture'' (-600, 200) (diffuse_tex settings)
     @ [links_new (''BR_DiffuseUV'', ''UV'') (''BR_DiffuseTex'', Named ''Vector'')]
     @ new_uv_node ''BR_NormalUV'' (-800, 0) (normal_uv settings)
     @ new_tex_node ''BR_NormalTex'' ''NormalTexture'' (-600, 0) (normal_tex settings)
     @ [links_new (''BR_NormalUV'', ''UV'') (''BR_NormalTex'', Named ''Vector''),
        nodes_new ''ShaderNodeNormalMap'',
        set_location ''Normal Map'' (-400, 0),
        set_name ''Normal Map'' ''BR_NormalMap'',
        links_new (''BR_NormalTex'', ''Color'') (''BR_NormalMap'', Named ''Color'')]
     @ new_uv_node ''BR_SpecularUV'' (-800, -200) (specular_uv settings)
     @ new_tex_node ''BR_SpecularTex'' ''SpecularTexture'' (-600, -200) (specular_tex settings)
     @ [links_new (''BR_SpecularUV'', ''UV'') (''BR_SpecularTex'', Named ''Vector''),
        connect_specular]
     @ new_uv_node ''BR_LightmapUV'' (-800, 400) (lightmap_uv settings)
     @ new_tex_node ''BR_LightmapTex'' ''LightMapTexture'' (-600, 400) (lightmap_tex settings)
     @ [links_new (''BR_LightmapUV'', ''UV'') (''BR_LightmapTex'', Named ''Vector''),
        links_new (''BR_LightmapTex'', ''Color'') (''BR_Emission'', Named ''Color''),
        links_new (''BR_Emission'', ''Emission'') (''BR_MixShader'', At 2),
        set_default_value ''BR_MixShader'' ''Fac'' (FloatValue (2 / 100))]
     @ (if detail_tex settings \<noteq> None then detail_stmts settings else [])
     @ [links_new (if detail_tex settings \<noteq> None then (''BR_NormalMix'', ''Color'')
                   else (''BR_NormalMap'', ''Normal''))
                  (''BR_BSDF'', Named ''Normal'')]
     @ (if macro_overlay_tex settings \<noteq> None then macro_stmts settings else [])
     @ [links_new (if macro_overlay_tex settings \<noteq> None then (''BR_MacroMix'', ''Color'')
                   else (''BR_DiffuseTex'', ''Color''))
                  (''BR_BSDF'', Named ''Base Color''),
        links_new (''BR_BSDF'', ''BSDF'') (''BR_MixShader'', At 1),
        links_new (''BR_MixShader'', ''Shader'') (''Material Output'', Named ''Surface'')]"

text \<open>\<open>_build_blenrose_node_tree(mat)\<close>. Without a tree, \<open>nt.nodes\<close> is an
  AttributeError on \<open>None\<close>.\<close>

definition build_blenrose_node_tree :: "material \<Rightarrow> py_error option \<times> material" where
  "build_blenrose_node_tree mat =
     (let mat1 = (if \<not> use_nodes mat then enable_nodes mat else mat)
      in (case node_tree mat1 of
            None \<Rightarrow> (Some AttributeError, mat1)
          | Some nt \<Rightarrow>
              (case run (build_stmts (blenrose_settings mat1)) (clear_nodes nt) of
                 (e, nt') \<Rightarrow> (e, mat1\<lparr>node_tree := Some nt'\<rparr>))))"

section \<open>Synchronising the graph with the settings (\<open>_update_all_blenrose_nodes\<close>)\<close>

definition critical_nodes :: "string list" where
  "critical_nodes = [''BR_BSDF'', ''BR_MixShader'', ''BR_Emission'']"

definition missing_critical :: "node_tree \<Rightarrow> bool" where
  "missing_critical nt = list_ex (\<lambda>node_name. nodes nt node_name = None) critical_nodes"

definition texture_mappings :: "(string \<times> string) list" where
  "texture_mappings =
     [(''BR_DiffuseTex'', ''diffuse_tex''),
      (''BR_LightmapTex'', ''lightmap_tex''),
      (''BR_SpecularTex'', ''specular_tex''),
      (''BR_NormalTex'', ''normal_tex''),
      (''BR_DetailTex'', ''detail_tex''),
      (''BR_MacroOverlayTex'', ''macro_overlay_tex''),
      (''BR_EnvironmentTex'', ''environment_tex''),
      (''BR_DecalTex'', ''decal_tex''),
      (''BR_TransparentTex'', ''transparent_tex''),
      (''BR_NoiseTex'', ''noise_tex'')]"

definition uv_mappings :: "(string \<times> string) list" where
  "uv_mappings =
     [(''BR_DiffuseUV'', ''diffuse_uv''),
      (''BR_LightmapUV'', ''lightmap_uv''),
      (''BR_SpecularUV'', ''specular_uv''),
      (''BR_NormalUV'', ''normal_uv''),
      (''BR_DetailUV'', ''detail_uv''),
      (''BR_MacroOverlayUV'', ''macro_overlay_uv''),
      (''BR_EnvironmentUV'', ''environment_uv''),
      (''BR_DecalUV'', ''decal_uv''),
      (''BR_TransparentUV'', ''transparent_uv''),
      (''BR_NoiseUV'', ''noise_uv'')]"

text \<open>The body of \<open>for node_name, prop_name in texture_mappings\<close>.\<close>

definition update_texture_node :: "settings \<Rightarrow> string \<times> string \<Rightarrow> stmt" where
  "update_texture_node self m nt =
     (case m of
        (node_name, prop_name) \<Rightarrow>
          (case nodes nt node_name of
             None \<Rightarrow> (None, nt)
           | Some tex_node \<Rightarrow>
               if node_type tex_node = ''TEX_IMAGE'' then
                 (None,
                  nt\<lparr>nodes := (nodes nt)
                        (node_name \<mapsto> tex_node\<lparr>node_image := getattr_tex self prop_name\<rparr>)\<rparr>)
               else (None, nt)))"

text \<open>The body of \<open>for node_name, prop_name in uv_mappings\<close>.\<close>

definition update_uv_node :: "settings \<Rightarrow> string \<times> string \<Rightarrow> stmt" where
  "update_uv_node self m nt =
     (case m of
        (node_name, prop_name) \<Rightarrow>
          (case nodes nt node_name of
             None \<Rightarrow> (None, nt)
           | Some uv_node \<Rightarrow>
               if node_type uv_node = ''UVMAP'' \<and> getattr_uv self prop_name \<noteq> [] then
                 (None,
                  nt\<lparr>nodes := (nodes nt)
                        (node_name \<mapsto> uv_node\<lparr>uv_map := getattr_uv self prop_name\<rparr>)\<rparr>)
               else (None, nt)))"

text \<open>\<open>n = nt.nodes.get(node_name)\<close>, then \<open>if n: n.inputs[input_name].default_value = v\<close>.\<close>

definition update_input_value :: "string \<Rightarrow> string \<Rightarrow> socket_value \<Rightarrow> stmt" where
  "update_input_value node_name input_name v nt =
     (case nodes nt node_name of
        None \<Rightarrow> (None, nt)
      | Some n \<Rightarrow> set_default_value node_name input_name v nt)"

text \<open>The mixer's factor is set to 0.02 only while nothing is linked to it.\<close>

definition update_mix_shader_fac :: stmt where
  "update_mix_shader_fac nt =
     (case nodes nt ''BR_MixShader'' of
        None \<Rightarrow> (None, nt)
      | Some mix_shader_node \<Rightarrow>
          (case input_index mix_shader_node ''Fac'' of
             None \<Rightarrow> (Some KeyError, nt)
           | Some i \<Rightarrow>
               if \<not> is_linked nt ''BR_MixShader'' i then
                 set_default_value ''BR_MixShader'' ''Fac'' (FloatValue (2 / 100)) nt
               else (None, nt)))"

text \<open>The loop that looks for a link from the lightmap texture's Color output to the
  emission node's Color input.\<close>

definition connection_exists :: "node_tree \<Rightarrow> bool" where
  "connection_exists nt =
     list_ex (\<lambda>l. from_node l = ''BR_LightmapTex'' \<and> to_node l = ''BR_Emission'' \<and>
                  from_socket_name nt l = Some ''Color'' \<and> to_socket_name nt l = Some ''Color'')
       (links nt)"

definition update_lightmap_link :: stmt where
  "update_lightmap_link nt =
     (if nodes nt ''BR_Emission'' \<noteq> None \<and> nodes nt ''BR_LightmapTex'' \<noteq> None then
        if \<not> connection_exists nt then
          links_new (''BR_LightmapTex'', ''Color'') (''BR_Emission'', Named ''Color'') nt
        else (None, nt)
      else (None, nt))"

text \<open>The statements of \<open>_update_all_blenrose_nodes\<close> once the three critical nodes were
  found.\<close>

definition update_stmts :: "settings \<Rightarrow> stmt list" where
  "update_stmts self =
     map (update_texture_node self) texture_mappings
     @ map (update_uv_node self) uv_mappings
     @ [update_input_value ''BR_DetailMapping'' ''Scale''
          (VectorValue (detail_normal_uv_scale self) (detail_normal_uv_scale self) 1),
        update_input_value ''BR_MacroMapping'' ''Scale''
          (VectorValue (macro_overlay_uv_scale self) (macro_overlay_uv_scale self) 1),
        update_input_value ''BR_MacroMix'' ''Fac'' (FloatValue (macro_overlay_opacity self)),
        update_mix_shader_fac,
        update_lightmap_link]"

text \<open>
  \<open>_update_all_blenrose_nodes(self, context)\<close>, the update callback of every texture, UV
  and scalar property. \<open>suppressed\<close> is the module's set
  \<open>_SUPPRESSED_UPDATE_MATERIALS\<close>; \<open>mat\<close> is the material that owns the settings
  (\<open>self.id_data\<close>, which for a registered settings group is that material).
\<close>

definition update_all_blenrose_nodes :: "nat set \<Rightarrow> material \<Rightarrow> py_error option \<times> material" where
  "update_all_blenrose_nodes suppressed mat =
     (if mat_pointer mat \<in> suppressed then (None, mat)
      else
        let mat1 = (if \<not> use_nodes mat then enable_nodes mat else mat)
        in (case node_tree mat1 of
              None \<Rightarrow> (None, mat1)
            | Some nt \<Rightarrow>
                if missing_critical nt then build_blenrose_node_tree mat1
                else
                  (case run (update_stmts (blenrose_settings mat1)) nt of
                     (e, nt') \<Rightarrow> (e, mat1\<lparr>node_tree := Some nt'\<rparr>))))"

section \<open>The graph that a rebuild produces\<close>

text \<open>
  The result of the statements of \<open>_build_blenrose_node_tree\<close> on a cleared tree,
  written out: thirteen nodes and nine links in every case, the detail-normal branch
  when a detail texture is set, the macro-overlay branch when a macro-overlay texture is
  set, and the links into the surface shader, the mixer and the output.
\<close>

definition mk_link :: "string \<Rightarrow> nat \<Rightarrow> string \<Rightarrow> nat \<Rightarrow> link" where
  "mk_link a i b j = \<lparr>from_node = a, from_socket = i, to_node = b, to_socket = j\<rparr>"

definition uv_node_at :: "int \<times> int \<Rightarrow> string \<Rightarrow> node" where
  "uv_node_at loc u = uv_map_template\<lparr>location := loc, uv_map := u\<rparr>"

definition tex_node_at :: "string \<Rightarrow> int \<times> int \<Rightarrow> image option \<Rightarrow> node" where
  "tex_node_at lbl loc img = tex_image_template\<lparr>label := lbl, location := loc, node_image := img\<rparr>"

definition with_input_value :: "node \<Rightarrow> nat \<Rightarrow> socket_value \<Rightarrow> node" where
  "with_input_value n i v = n\<lparr>inputs := (inputs n)[i := (inputs n ! i)\<lparr>default_value := v\<rparr>]\<rparr>"

definition base_nodes :: "settings \<Rightarrow> string \<rightharpoonup> node" where
  "base_nodes s =
     [''Material Output'' \<mapsto> output_material_template\<lparr>location := (600, 0)\<rparr>,
      ''BR_BSDF'' \<mapsto> principled_bsdf_template\<lparr>location := (200, 0)\<rparr>,
      ''BR_Emission'' \<mapsto> emission_template\<lparr>location := (200, 200)\<rparr>,
      ''BR_DiffuseUV'' \<mapsto> uv_node_at (-800, 200) (diffuse_uv s),
      ''BR_DiffuseTex'' \<mapsto> tex_node_at ''DiffuseTexture'' (-600, 200) (diffuse_tex s),
      ''BR_NormalUV'' \<mapsto> uv_node_at (-800, 0) (normal_uv s),
      ''BR_NormalTex'' \<mapsto> tex_node_at ''NormalTexture'' (-600, 0) (normal_tex s),
      ''BR_NormalMap'' \<mapsto> normal_map_template\<lparr>location := (-400, 0)\<rparr>,
      ''BR_SpecularUV'' \<mapsto> uv_node_at (-800, -200) (specular_uv s),
      ''BR_SpecularTex'' \<mapsto> tex_node_at ''SpecularTexture'' (-600, -200) (specular_tex s),
      ''Separate RGB'' \<mapsto>
        separate_rgb_template\<lparr>location := (-400, -200), label := ''Specular Extract''\<rparr>,
      ''BR_LightmapUV'' \<mapsto> uv_node_at (-800, 400) (lightmap_uv s),
      ''BR_LightmapTex'' \<mapsto> tex_node_at ''LightMapTexture'' (-600, 400) (lightmap_tex s),
      ''BR_MixShader'' \<mapsto>
        with_input_value (mix_shader_template\<lparr>location := (400, 100)\<rparr>) 0
          (FloatValue (2 / 100))]"

definition base_links :: "link list" where
  "base_links =
     [mk_link ''BR_DiffuseUV'' 0 ''BR_DiffuseTex'' 0,
      mk_link ''BR_NormalUV'' 0 ''BR_NormalTex'' 0,
      mk_link ''BR_NormalTex'' 0 ''BR_NormalMap'' 1,
      mk_link ''BR_SpecularUV'' 0 ''BR_SpecularTex'' 0,
      mk_link ''BR_SpecularTex'' 0 ''Separate RGB'' 0,
      mk_link ''Separate RGB'' 0 ''BR_BSDF'' 7,
      mk_link ''BR_LightmapUV'' 0 ''BR_LightmapTex'' 0,
      mk_link ''BR_LightmapTex'' 0 ''BR_Emission'' 0,
      mk_link ''BR_Emission'' 0 ''BR_MixShader'' 2]"

definition detail_nodes :: "settings \<Rightarrow> string \<rightharpoonup> node" where
  "detail_nodes s =
     [''BR_DetailUV'' \<mapsto> uv_node_at (-1000, -100) (detail_uv s),
      ''BR_DetailMapping'' \<mapsto>
        with_input_value (mapping_template\<lparr>location := (-800, -100)\<rparr>) 3
          (VectorValue (detail_normal_uv_scale s) (detail_normal_uv_scale s) 1),
      ''BR_DetailTex'' \<mapsto> tex_node_at ''DetailTexture'' (-600, -100) (detail_tex s),
      ''Normal Map'' \<mapsto>
        normal_map_template\<lparr>location := (-400, -100), label := ''Detail Normal Map''\<rparr>,
      ''BR_NormalMix'' \<mapsto>
        with_input_value (mix_rgb_template\<lparr>location := (-200, 0), blend_type := ''MIX''\<rparr>) 0
          (FloatValue (1 / 2))]"

definition detail_links :: "link list" where
  "detail_links =
     [mk_link ''BR_DetailUV'' 0 ''BR_DetailMapping'' 0,
      mk_link ''BR_DetailMapping'' 0 ''BR_DetailTex'' 0,
      mk_link ''BR_DetailTex'' 0 ''Normal Map'' 1,
      mk_link ''BR_NormalMap'' 0 ''BR_NormalMix'' 1,
      mk_link ''Normal Map'' 0 ''BR_NormalMix'' 2]"

definition macro_nodes :: "settings \<Rightarrow> string \<rightharpoonup> node" where
  "macro_nodes s =
     [''BR_MacroOverlayUV'' \<mapsto> uv_node_at (-1000, 300) (macro_overlay_uv s),
      ''BR_MacroMapping'' \<mapsto>
        with_input_value (mapping_template\<lparr>location := (-800, 300)\<rparr>) 3
          (VectorValue (macro_overlay_uv_scale s) (macro_overlay_uv_scale s) 1),
      ''BR_MacroOverlayTex'' \<mapsto>
        tex_node_at ''MacroOverlayTexture'' (-600, 300) (macro_overlay_tex s),
      ''BR_MacroMix'' \<mapsto>
        with_input_value (mix_rgb_template\<lparr>location := (-400, 250), blend_type := ''MIX''\<rparr>) 0
          (FloatValue (macro_overlay_opacity s))]"

definition macro_links :: "link list" where
  "macro_links =
     [mk_link ''BR_MacroOverlayUV'' 0 ''BR_MacroMapping'' 0,
      mk_link ''BR_MacroMapping'' 0 ''BR_MacroOverlayTex'' 0,
      mk_link ''BR_DiffuseTex'' 0 ''BR_MacroMix'' 1,
      mk_link ''BR_MacroOverlayTex'' 0 ''BR_MacroMix'' 2]"

definition built_tree :: "settings \<Rightarrow> node_tree" where
  "built_tree s =
     \<lparr>nodes = base_nodes s
                ++ (if detail_tex s \<noteq> None then detail_nodes s else Map.empty)
                ++ (if macro_overlay_tex s \<noteq> None then macro_nodes s else Map.empty),
      links = base_links
                @ (if detail_tex s \<noteq> None
                   then detail_links @ [mk_link ''BR_NormalMix'' 0 ''BR_BSDF'' 22]
                   else [mk_link ''BR_NormalMap'' 0 ''BR_BSDF'' 22])
                @ (if macro_overlay_tex s \<noteq> None
                   then macro_links @ [mk_link ''BR_MacroMix'' 0 ''BR_BSDF'' 0]
                   else [mk_link ''BR_DiffuseTex'' 0 ''BR_BSDF'' 0])
                @ [mk_link ''BR_BSDF'' 0 ''BR_MixShader'' 1,
                   mk_link ''BR_MixShader'' 0 ''Material Output'' 0]\<rparr>"

section \<open>Auto-fill from detection and the \<open>enabled\<close> switch\<close>

text \<open>
  Assigning a texture or UV property stores the value and then runs the property's
  update callback, which for every such property is \<open>_update_all_blenrose_nodes\<close>. The
  host reports an exception of a callback and does not raise it into the assignment.
\<close>

definition setattr_tex :: "nat set \<Rightarrow> string \<Rightarrow> image option \<Rightarrow> material \<Rightarrow> material" where
  "setattr_tex suppressed prop_name v mat =
     snd (update_all_blenrose_nodes suppressed
            (mat\<lparr>blenrose_settings := store_tex prop_name v (blenrose_settings mat)\<rparr>))"

definition setattr_uv :: "nat set \<Rightarrow> string \<Rightarrow> string \<Rightarrow> material \<Rightarrow> material" where
  "setattr_uv suppressed prop_name v mat =
     snd (update_all_blenrose_nodes suppressed
            (mat\<lparr>blenrose_settings := store_uv prop_name v (blenrose_settings mat)\<rparr>))"

text \<open>One value of the dict that \<open>_detect_textures_from_node_tree\<close> returns: the image of
  the matched node and the UV map name resolved for it, if any.\<close>

record texture_info =
  info_image :: image
  uv_map_name :: "string option"

definition texture_prop_map :: "string \<rightharpoonup> string" where
  "texture_prop_map =
     map_of [(''diffuse'', ''diffuse_tex''),
             (''lightmap'', ''lightmap_tex''),
             (''specular'', ''specular_tex''),
             (''normal'', ''normal_tex''),
             (''detail'', ''detail_tex''),
             (''macro_overlay'', ''macro_overlay_tex''),
             (''environment'', ''environment_tex''),
             (''decal'', ''decal_tex''),
             (''transparent'', ''transparent_tex''),
             (''noise'', ''noise_tex'')]"

definition uv_prop_map :: "string \<rightharpoonup> string" where
  "uv_prop_map =
     map_of [(''diffuse'', ''diffuse_uv''),
             (''lightmap'', ''lightmap_uv''),
             (''specular'', ''specular_uv''),
             (''normal'', ''normal_uv''),
             (''detail'', ''detail_uv''),
             (''macro_overlay'', ''macro_overlay_uv''),
             (''environment'', ''environment_uv''),
             (''decal'', ''decal_uv''),
             (''transparent'', ''transparent_uv''),
             (''noise'', ''noise_uv'')]"

text \<open>The body of \<open>for channel_name, texture_info in detected.items()\<close>. The texture is
  assigned under the test on \<open>update_existing\<close>; the UV choice is assigned whenever the
  resolved name is an identifier or a name of the UV enum.\<close>

definition fill_channel ::
  "nat set \<Rightarrow> enum_item list \<Rightarrow> bool \<Rightarrow> material \<Rightarrow> string \<times> texture_info \<Rightarrow> material" where
  "fill_channel suppressed uv_enum_items update_existing mat entry =
     (case entry of
        (channel_name, texture_info) \<Rightarrow>
          let mat1 =
                (case texture_prop_map channel_name of
                   None \<Rightarrow> mat
                 | Some tex_prop \<Rightarrow>
                     if update_existing \<or> getattr_tex (blenrose_settings mat) tex_prop = None
                     then setattr_tex suppressed tex_prop (Some (info_image texture_info)) mat
                     else mat)
          in (case uv_prop_map channel_name of
                None \<Rightarrow> mat1
              | Some uv_prop \<Rightarrow>
                  (case uv_map_name texture_info of
                     None \<Rightarrow> mat1
                   | Some uv_name \<Rightarrow>
                       if uv_name = [] then mat1
                       else
                         (case find (\<lambda>item. fst item = uv_name \<or> fst (snd item) = uv_name)
                                 uv_enum_items of
                            None \<Rightarrow> mat1
                          | Some item \<Rightarrow> setattr_uv suppressed uv_prop (fst item) mat1))))"

text \<open>
  \<open>_auto_fill_textures_from_node_tree(settings, update_existing)\<close>. \<open>detected\<close> is what
  \<open>_detect_textures_from_node_tree(mat)\<close> returned, in the dict's order; the loop does not
  change the tree, so detection is not repeated. The material's pointer is in the
  suppression set while the loop runs and is discarded at the end.
\<close>

definition auto_fill_textures_from_node_tree ::
  "nat set \<Rightarrow> (string \<times> texture_info) list \<Rightarrow> string list \<Rightarrow> bool \<Rightarrow> material \<Rightarrow>
   nat set \<times> material" where
  "auto_fill_textures_from_node_tree suppressed detected sorted_uv_names update_existing mat =
     (let mat_ptr = mat_pointer mat;
          suppressed1 = insert mat_ptr suppressed;
          mat' = foldl (fill_channel suppressed1 (uv_channel_items sorted_uv_names) update_existing)
                   mat detected
      in (suppressed1 - {mat_ptr}, mat'))"

text \<open>\<open>str.startswith\<close>.\<close>

definition startswith :: "string \<Rightarrow> string \<Rightarrow> bool" where
  "startswith s p = (take (length p) s = p)"

text \<open>
  \<open>_update_enabled(self, context)\<close>, the update callback of \<open>enabled\<close>; the flag already
  holds its new value. The result is the suppression set, the exception if one was
  raised, and the material.
\<close>

definition update_enabled ::
  "nat set \<Rightarrow> (string \<times> texture_info) list \<Rightarrow> string list \<Rightarrow> material \<Rightarrow>
   nat set \<times> py_error option \<times> material" where
  "update_enabled suppressed detected sorted_uv_names mat =
     (if enabled (blenrose_settings mat) then
        (case (if use_nodes mat \<and> node_tree mat \<noteq> None
               then auto_fill_textures_from_node_tree suppressed detected sorted_uv_names False mat
               else (suppressed, mat)) of
           (suppressed', mat1) \<Rightarrow>
             (case build_blenrose_node_tree mat1 of
                (e, mat2) \<Rightarrow> (suppressed', e, mat2)))
      else if use_nodes mat \<and> node_tree mat \<noteq> None then
        (suppressed, None,
         mat\<lparr>node_tree :=
               map_option (remove_nodes_where (\<lambda>name. startswith name ''BR_'')) (node_tree mat)\<rparr>)
      else (suppressed, None, mat))"

section \<open>Notions used to state and prove the properties of synchronisation\<close>

text \<open>
  A statement that looks one node up by name and, if it is there, replaces it by a node
  computed from it and from the links of the tree, or raises. Every statement of the
  update path but the last has this shape.
\<close>

definition node_stmt :: "string \<Rightarrow> (link list \<Rightarrow> node \<Rightarrow> py_error + node) \<Rightarrow> stmt" where
  "node_stmt k F nt =
     (case nodes nt k of
        None \<Rightarrow> (None, nt)
      | Some n \<Rightarrow>
          (case F (links nt) n of
             Inl e \<Rightarrow> (Some e, nt)
           | Inr n' \<Rightarrow> (None, nt\<lparr>nodes := (nodes nt)(k \<mapsto> n')\<rparr>)))"

definition image_step :: "settings \<Rightarrow> string \<Rightarrow> link list \<Rightarrow> node \<Rightarrow> py_error + node" where
  "image_step self prop_name L n =
     Inr (if node_type n = ''TEX_IMAGE'' then n\<lparr>node_image := getattr_tex self prop_name\<rparr>
          else n)"

definition uv_step :: "settings \<Rightarrow> string \<Rightarrow> link list \<Rightarrow> node \<Rightarrow> py_error + node" where
  "uv_step self prop_name L n =
     Inr (if node_type n = ''UVMAP'' \<and> getattr_uv self prop_name \<noteq> []
          then n\<lparr>uv_map := getattr_uv self prop_name\<rparr> else n)"

definition input_step :: "string \<Rightarrow> socket_value \<Rightarrow> link list \<Rightarrow> node \<Rightarrow> py_error + node" where
  "input_step name v L n =
     (case input_index n name of
        None \<Rightarrow> Inl KeyError
      | Some i \<Rightarrow>
          (case assign_default_value (socket_kind (inputs n ! i)) v of
             Some e \<Rightarrow> Inl e
           | None \<Rightarrow> Inr (with_input_value n i v)))"

definition mix_fac_step :: "link list \<Rightarrow> node \<Rightarrow> py_error + node" where
  "mix_fac_step L n =
     (case input_index n ''Fac'' of
        None \<Rightarrow> Inl KeyError
      | Some i \<Rightarrow>
          if \<not> list_ex (\<lambda>l. to_node l = ''BR_MixShader'' \<and> to_socket l = i) L
          then (case assign_default_value (socket_kind (inputs n ! i)) (FloatValue (2 / 100)) of
                  Some e \<Rightarrow> Inl e
                | None \<Rightarrow> Inr (with_input_value n i (FloatValue (2 / 100))))
          else Inr n)"

definition update_table ::
  "settings \<Rightarrow> (string \<times> (link list \<Rightarrow> node \<Rightarrow> py_error + node)) list" where
  "update_table self =
     map (\<lambda>m. (fst m, image_step self (snd m))) texture_mappings
     @ map (\<lambda>m. (fst m, uv_step self (snd m))) uv_mappings
     @ [(''BR_DetailMapping'',
         input_step ''Scale''
           (VectorValue (detail_normal_uv_scale self) (detail_normal_uv_scale self) 1)),
        (''BR_MacroMapping'',
         input_step ''Scale''
           (VectorValue (macro_overlay_uv_scale self) (macro_overlay_uv_scale self) 1)),
        (''BR_MacroMix'', input_step ''Fac'' (FloatValue (macro_overlay_opacity self))),
        (''BR_MixShader'', mix_fac_step)]"

text \<open>A step that, applied to its own result, returns it again.\<close>

definition idem_step :: "(link list \<Rightarrow> node \<Rightarrow> py_error + node) \<Rightarrow> bool" where
  "idem_step F = (\<forall>L n n'. F L n = Inr n' \<longrightarrow> F L n' = Inr n')"

text \<open>Whether something is linked to input \<open>i\<close> of the mixer, in a list of links.\<close>

definition mix_linked :: "link list \<Rightarrow> nat \<Rightarrow> bool" where
  "mix_linked L i = list_ex (\<lambda>l. to_node l = ''BR_MixShader'' \<and> to_socket l = i) L"

text \<open>
  A material whose graph was damaged and extended by hand: the surface shader is still
  there, the mixer and the emission node are gone, and a texture node of the user feeds
  the shader's base colour.
\<close>

definition user_tree :: node_tree where
  "user_tree =
     \<lparr>nodes = [''BR_BSDF'' \<mapsto> principled_bsdf_template, ''My Texture'' \<mapsto> tex_image_template],
      links = [mk_link ''My Texture'' 0 ''BR_BSDF'' 0]\<rparr>"

definition user_material :: material where
  "user_material =
     \<lparr>mat_pointer = 1, use_nodes = True, node_tree = Some user_tree,
      blenrose_settings = default_settings\<rparr>"

text \<open>A material with a freshly built graph to which the user added a texture node.\<close>

definition managed_tree :: node_tree where
  "managed_tree =
     (built_tree default_settings)
       \<lparr>nodes := (nodes (built_tree default_settings))(''My Texture'' \<mapsto> tex_image_template)\<rparr>"

definition managed_material :: material where
  "managed_material =
     \<lparr>mat_pointer = 2, use_nodes = True, node_tree = Some managed_tree,
      blenrose_settings = default_settings\<lparr>enabled := True\<rparr>\<rparr>"

text \<open>The same material after the user switched "use nodes" off.\<close>

definition nodes_off_material :: material where
  "nodes_off_material = user_material\<lparr>use_nodes := False\<rparr>"

text \<open>
  A detection result: one image texture node matched the diffuse channel, and its UV
  source resolved to the map called UV1.
\<close>

definition detected_diffuse :: "(string \<times> texture_info) list" where
  "detected_diffuse =
     [(''diffuse'',
       \<lparr>info_image = \<lparr>image_name = ''wall.png'', filepath = ''//textures/wall.png''\<rparr>,
        uv_map_name = Some ''UV1''\<rparr>)]"

text \<open>A material that is being enabled: the flag is already set, the graph is the
  user's.\<close>

definition enabling_material :: material where
  "enabling_material =
     user_material\<lparr>blenrose_settings := default_settings\<lparr>enabled := True\<rparr>\<rparr>"

text \<open>
  A material with a freshly built graph from which the link into the emission node was
  deleted by hand: every node is still there.
\<close>

definition unlinked_tree :: node_tree where
  "unlinked_tree =
     (built_tree default_settings)
       \<lparr>links := filter (\<lambda>l. to_node l \<noteq> ''BR_Emission'') (links (built_tree default_settings))\<rparr>"

definition unlinked_material :: material where
  "unlinked_material =
     \<lparr>mat_pointer = 3, use_nodes = True, node_tree = Some unlinked_tree,
      blenrose_settings = default_settings\<lparr>enabled := True\<rparr>\<rparr>"

text \<open>
  The same graph after the user also gave the name "BR_DetailMapping" to an image texture
  node, which has no input called "Scale".
\<close>

definition damaged_tree :: node_tree where
  "damaged_tree =
     unlinked_tree\<lparr>nodes := (nodes unlinked_tree)(''BR_DetailMapping'' \<mapsto> tex_image_template)\<rparr>"

definition damaged_material :: material where
  "damaged_material =
     \<lparr>mat_pointer = 4, use_nodes = True, node_tree = Some damaged_tree,
      blenrose_settings = default_settings\<lparr>enabled := True\<rparr>\<rparr>"

text \<open>
  A Vector Math node as the host creates it: its input "Scale" is a float socket. In
  \<open>mistyped_tree\<close> such a node carries the name "BR_DetailMapping".
\<close>

definition vector_math_node :: node where
  "vector_math_node =
     host_node ''VECT_MATH''
       [(''Vector'', VectorSocket), (''Vector'', VectorSocket), (''Vector'', VectorSocket),
        (''Scale'', FloatSocket)]
       [''Vector'', ''Value'']"

definition mistyped_tree :: node_tree where
  "mistyped_tree =
     unlinked_tree\<lparr>nodes := (nodes unlinked_tree)(''BR_DetailMapping'' \<mapsto> vector_math_node)\<rparr>"

definition mistyped_material :: material where
  "mistyped_material =
     \<lparr>mat_pointer = 5, use_nodes = True, node_tree = Some mistyped_tree,
      blenrose_settings = default_settings\<lparr>enabled := True\<rparr>\<rparr>"
section \<open>Properties of the export helpers\<close>

lemma add_spline_length:
  "(\<forall>r \<in> set acc. 2 \<le> length (entry_points r)) \<Longrightarrow>
   \<forall>r \<in> set (add_spline obj acc sp). 2 \<le> length (entry_points r)"
  by (simp add: add_spline_def Let_def)

lemma foldl_add_spline_length:
  "(\<forall>r \<in> set acc. 2 \<le> length (entry_points r)) \<Longrightarrow>
   \<forall>r \<in> set (foldl (add_spline obj) acc sps). 2 \<le> length (entry_points r)"
proof (induction sps arbitrary: acc)
  case Nil
  then show ?case by simp
next
  case (Cons sp sps)
  have "\<forall>r \<in> set (add_spline obj acc sp). 2 \<le> length (entry_points r)"
    using Cons.prems by (rule add_spline_length)
  from Cons.IH [OF this] show ?case by simp
qed

lemma foldl_objects_length:
  "(\<forall>r \<in> set acc. 2 \<le> length (entry_points r)) \<Longrightarrow>
   \<forall>r \<in> set (foldl (\<lambda>acc obj. foldl (add_spline obj) acc (splines obj)) acc objs).
      2 \<le> length (entry_points r)"
proof (induction objs arbitrary: acc)
  case Nil
  then show ?case by simp
next
  case (Cons obj objs)
  have "\<forall>r \<in> set (foldl (add_spline obj) acc (splines obj)). 2 \<le> length (entry_points r)"
    using Cons.prems by (rule foldl_add_spline_length)
  from Cons.IH [OF this] show ?case by simp
qed


lemma py_min_snoc: "xs \<noteq> [] \<Longrightarrow> py_min (xs @ [x]) = min (py_min xs) x"
  by (cases xs) simp_all

lemma py_max_snoc: "xs \<noteq> [] \<Longrightarrow> py_max (xs @ [x]) = max (py_max xs) x"
  by (cases xs) simp_all

lemma add_corner_extrema:
  "add_corner (extrema_of pts) c = extrema_of (pts @ [(fst c, snd (snd c), - fst (snd c))])"
  by (cases c) (simp add: add_corner_def extrema_of_def inf_min_def neg_inf_max_def
      py_min_snoc py_max_snoc Let_def)

lemma foldl_add_corner_extrema:
  "foldl add_corner (extrema_of pts) cs =
     extrema_of (pts @ map (\<lambda>c. (fst c, snd (snd c), - fst (snd c))) cs)"
  by (induction cs arbitrary: pts) (simp_all add: add_corner_extrema)

lemma add_object_extrema:
  "add_object (extrema_of pts) obj = extrema_of (pts @ remapped_corners [obj])"
  by (simp add: add_object_def remapped_corners_def foldl_add_corner_extrema Let_def)

lemma remapped_corners_Cons:
  "remapped_corners (obj # objs) = remapped_corners [obj] @ remapped_corners objs"
  by (simp add: remapped_corners_def)

lemma foldl_add_object_extrema:
  "foldl add_object (extrema_of pts) objs = extrema_of (pts @ remapped_corners objs)"
proof (induction objs arbitrary: pts)
  case Nil
  show ?case by (simp add: remapped_corners_def)
next
  case (Cons obj objs)
  show ?case
    using Cons.IH [of "pts @ remapped_corners [obj]"]
    by (simp add: add_object_extrema remapped_corners_Cons [of obj objs])
qed

lemma bbox_for_objects_eq:
  "calculate_bbox_for_objects objs = calculate_bbox_from_points (remapped_corners objs)"
proof -
  have e: "foldl add_object
             \<lparr>min_x = None, min_y = None, min_z = None,
              max_x = None, max_y = None, max_z = None\<rparr> objs
           = extrema_of (remapped_corners objs)"
    using foldl_add_object_extrema [of "[]" objs] by (simp add: extrema_of_def)
  show ?thesis
  proof (cases "objs = []")
    case True
    then show ?thesis
      by (simp add: calculate_bbox_for_objects_def calculate_bbox_from_points_def
          remapped_corners_def)
  next
    case False
    then show ?thesis
      by (simp add: calculate_bbox_for_objects_def calculate_bbox_from_points_def e
          extrema_of_def Let_def)
  qed
qed

text \<open>
  Claim C8. The export remap sends a source point \<open>(x, y, z)\<close> to \<open>(x, z, -y)\<close>. For
  bounding boxes: the box of a list of objects is the box of the world-space corners of
  its meshes after each corner \<open>c\<close> became \<open>(c.x, c.z, -c.y)\<close>. For curves: every sampled
  point of a POLY, BEZIER or NURBS spline is the world-space control point \<open>p\<close> turned
  into \<open>(p.x, p.z, -p.y)\<close>. In particular \<open>(1, 2, 3)\<close> becomes \<open>(1, 3, -2)\<close>, as a curve
  point and as the corners of a mesh.
\<close>

theorem export_remap_is_x_z_neg_y:
  "calculate_bbox_for_objects objs = calculate_bbox_from_points (remapped_corners objs)
   \<and> sample_spline mw \<lparr>spline_type = ''POLY'', points = ps, bezier_points = bs,
                       use_cyclic_u = c\<rparr>
       = map (\<lambda>p. (fst (mw (xyz p)), snd (snd (mw (xyz p))), - fst (snd (mw (xyz p))))) ps
   \<and> sample_spline mw \<lparr>spline_type = ''BEZIER'', points = ps, bezier_points = bs,
                       use_cyclic_u = c\<rparr>
       = map (\<lambda>p. (fst (mw p), snd (snd (mw p)), - fst (snd (mw p)))) bs
   \<and> sample_spline mw \<lparr>spline_type = ''NURBS'', points = ps, bezier_points = bs,
                       use_cyclic_u = c\<rparr>
       = map (\<lambda>p. (fst (mw (xyz p)), snd (snd (mw (xyz p))), - fst (snd (mw (xyz p))))) ps
   \<and> spline_point (\<lambda>p. p) (1, 2, 3) = (1, 3, -2)
   \<and> calculate_bbox_for_objects
        [\<lparr>obj_name = n, obj_type = ''MESH'', visible = v, matrix_world = (\<lambda>p. p),
          bound_box = replicate 8 (1, 2, 3), splines = []\<rparr>]
       = Some \<lparr>bmin = (1, 3, -2), bmax = (1, 3, -2)\<rparr>"
  apply (intro conjI)
       apply (rule bbox_for_objects_eq)
      apply (simp add: sample_spline_def spline_point_def split: prod.splits)
     apply (simp add: sample_spline_def spline_point_def split: prod.splits)
    apply (simp add: sample_spline_def spline_point_def split: prod.splits)
   apply (simp add: spline_point_def)
  apply (simp add: bbox_for_objects_eq remapped_corners_def calculate_bbox_from_points_def
      eval_nat_numeral)
  done

lemma rail_extracted:
  "extract_splines_from_scene [rail_object] =
     [\<lparr>entry_name = ''Rail'', entry_points = [(0, 0, 0), (1, 3, -2)], is_closed = False,
       entry_type = ''POLY'',
       entry_bbox = Some \<lparr>bmin = (0, 0, -2), bmax = (1, 3, 0)\<rparr>\<rparr>]"
  by (simp add: rail_object_def extract_splines_from_scene_def add_spline_def
      sample_spline_def spline_point_def xyz_def calculate_bbox_from_points_def Let_def)

text \<open>
  Claim C10. Every entry of the extracted spline list has at least two sampled points; a
  spline whose sampling has fewer than two points adds nothing to the list; and a spline
  whose type is none of POLY, BEZIER and NURBS samples to no point at all, so it is left
  out without any error.
\<close>

theorem extracted_splines_have_two_points:
  "(\<forall>r \<in> set (extract_splines_from_scene objs). 2 \<le> length (entry_points r))
   \<and> (\<forall>obj acc sp. length (sample_spline (matrix_world obj) sp) < 2 \<longrightarrow>
         add_spline obj acc sp = acc)
   \<and> (\<forall>mw sp. spline_type sp \<notin> {''POLY'', ''BEZIER'', ''NURBS''} \<longrightarrow>
         sample_spline mw sp = [])"
  apply (intro conjI)
  subgoal
    unfolding extract_splines_from_scene_def Let_def
    by (rule foldl_objects_length) simp
  subgoal by (simp add: add_spline_def Let_def)
  subgoal by (simp add: sample_spline_def)
  done

theorem extracted_splines_have_two_points_witness:
  "length (extract_splines_from_scene [rail_object]) = 1
   \<and> 2 \<le> length (entry_points (hd (extract_splines_from_scene [rail_object])))
   \<and> length (sample_spline (matrix_world rail_object) (splines rail_object ! 1)) < 2
   \<and> add_spline rail_object [] (splines rail_object ! 1) = []
   \<and> spline_type (splines rail_object ! 2) \<notin> {''POLY'', ''BEZIER'', ''NURBS''}
   \<and> sample_spline (\<lambda>p. p) (splines rail_object ! 2) = []"
proof -
  note T = extracted_splines_have_two_points [of "[rail_object]"]
  have m: "hd (extract_splines_from_scene [rail_object])
             \<in> set (extract_splines_from_scene [rail_object])"
    by (simp add: rail_extracted)
  have a: "2 \<le> length (entry_points (hd (extract_splines_from_scene [rail_object])))"
    using T m by blast
  have s: "length (sample_spline (matrix_world rail_object) (splines rail_object ! 1)) < 2"
    by (simp add: rail_object_def sample_spline_def)
  have b: "add_spline rail_object [] (splines rail_object ! 1) = []"
    using T s by blast
  have t: "spline_type (splines rail_object ! 2) \<notin> {''POLY'', ''BEZIER'', ''NURBS''}"
    by (simp add: rail_object_def)
  have c: "sample_spline (\<lambda>p. p) (splines rail_object ! 2) = []"
    using T t by blast
  show ?thesis using a b c s t by (simp add: rail_extracted)
qed

section \<open>Properties of the classification tables and of the serialised material\<close>

lemma tables_ok:
  "MATERIAL_SUBCLASSES c = Some items \<Longrightarrow> items \<noteq> [] \<and> [] \<notin> set (map fst items)"
  unfolding MATERIAL_SUBCLASSES_def
  by (drule map_of_SomeD) (auto simp: MATERIAL_SUBCLASSES_items_def)

lemma class_keys:
  "c \<in> set (map fst MATERIAL_CLASS_ITEMS) \<Longrightarrow> MATERIAL_SUBCLASSES c \<noteq> None"
  unfolding MATERIAL_SUBCLASSES_def MATERIAL_CLASS_ITEMS_def MATERIAL_SUBCLASSES_items_def
  by auto

lemma items_ok:
  "material_subclass_items s \<noteq> [] \<and> [] \<notin> set (map fst (material_subclass_items s))"
  using tables_ok [of "material_class s"]
  by (auto simp: material_subclass_items_def MATERIAL_SUBCLASS_FALLBACK_def split: option.splits)

lemma valid_iff:
  "subclass_valid s \<longleftrightarrow> material_subclass s < length (material_subclass_items s)"
proof (cases "material_subclass s < length (material_subclass_items s)")
  case True
  then have "fst (material_subclass_items s ! material_subclass s)
               \<in> set (map fst (material_subclass_items s))"
    by (metis length_map nth_map nth_mem)
  with True show ?thesis
    by (simp add: subclass_valid_def get_material_subclass_def Let_def)
next
  case False
  with items_ok [of s] show ?thesis
    by (simp add: subclass_valid_def get_material_subclass_def Let_def)
qed

text \<open>
  Claim C4, as the specification states it, fails: a WATER material with subclass
  SKATEPARK satisfies the invariant; after its class is set to TREE, whose table holds
  DEFAULT only, the subclass read from the settings is the empty string and is not a
  member of the table. Nothing was reset.
\<close>

theorem class_change_breaks_subclass_invariant:
  "subclass_valid water_skatepark
   \<and> get_material_subclass water_skatepark = ''SKATEPARK''
   \<and> material_subclass_items (set_material_class ''TREE'' water_skatepark)
        = [(''DEFAULT'', ''default'', '''')]
   \<and> get_material_subclass (set_material_class ''TREE'' water_skatepark) = ''''
   \<and> \<not> subclass_valid (set_material_class ''TREE'' water_skatepark)"
  by (simp add: subclass_valid_def get_material_subclass_def material_subclass_items_def
      set_material_class_def water_skatepark_def default_settings_def
      MATERIAL_SUBCLASSES_def MATERIAL_SUBCLASSES_items_def Let_def)

text \<open>
  Claim C4, amended. The subclass table of the current class is never empty, and every
  class of \<open>MATERIAL_CLASS_ITEMS\<close> has its own table. The subclass is a member of the
  current class's table exactly when the stored index is below the table's length.
  Changing the class leaves the stored index as it is, so after the change the subclass
  is valid when the index also fits the new table, which index 0 (the first subclass)
  always does.
\<close>

theorem subclass_valid_iff_index_in_table:
  "material_subclass_items s \<noteq> []
   \<and> (subclass_valid s \<longleftrightarrow> material_subclass s < length (material_subclass_items s))
   \<and> material_subclass (set_material_class c s) = material_subclass s
   \<and> (material_subclass s < length (material_subclass_items (set_material_class c s)) \<longrightarrow>
        subclass_valid (set_material_class c s))
   \<and> (material_subclass s = 0 \<longrightarrow> subclass_valid (set_material_class c s))
   \<and> (c \<in> set (map fst MATERIAL_CLASS_ITEMS) \<longrightarrow>
        MATERIAL_SUBCLASSES c = Some (material_subclass_items (set_material_class c s)))"
proof -
  have k: "material_subclass (set_material_class c s) = material_subclass s"
    by (simp add: set_material_class_def)
  have z: "0 < length (material_subclass_items (set_material_class c s))"
    using items_ok [of "set_material_class c s"] by simp
  have m: "c \<in> set (map fst MATERIAL_CLASS_ITEMS) \<Longrightarrow>
        MATERIAL_SUBCLASSES c = Some (material_subclass_items (set_material_class c s))"
    using class_keys [of c] tables_ok [of c]
    by (auto simp: material_subclass_items_def set_material_class_def MATERIAL_CLASS_ITEMS_def
        split: option.splits)
  show ?thesis
    using items_ok [of s] valid_iff [of s] valid_iff [of "set_material_class c s"] k z m
    by auto
qed

theorem subclass_valid_iff_index_in_table_witness:
  "material_subclass default_settings = 0
   \<and> material_subclass default_settings
       < length (material_subclass_items (set_material_class ''TREE'' default_settings))
   \<and> ''TREE'' \<in> set (map fst MATERIAL_CLASS_ITEMS)
   \<and> subclass_valid (set_material_class ''TREE'' default_settings)
   \<and> MATERIAL_SUBCLASSES ''TREE''
       = Some (material_subclass_items (set_material_class ''TREE'' default_settings))"
proof -
  note T = subclass_valid_iff_index_in_table [of default_settings "''TREE''"]
  have a: "material_subclass default_settings = 0"
    by (simp add: default_settings_def)
  have b: "''TREE'' \<in> set (map fst MATERIAL_CLASS_ITEMS)"
    by (simp add: MATERIAL_CLASS_ITEMS_def)
  have c: "subclass_valid (set_material_class ''TREE'' default_settings)"
    using T a by blast
  have d: "MATERIAL_SUBCLASSES ''TREE''
       = Some (material_subclass_items (set_material_class ''TREE'' default_settings))"
    using T b by blast
  have e: "material_subclass default_settings
       < length (material_subclass_items (set_material_class ''TREE'' default_settings))"
    by (simp add: default_settings_def material_subclass_items_def set_material_class_def
        MATERIAL_SUBCLASSES_def MATERIAL_SUBCLASSES_items_def)
  show ?thesis using a b c d e by simp
qed

text \<open>A class that has no table of its own gets the fallback table, which has one
  entry.\<close>

lemma unknown_class_uses_fallback_table:
  "MATERIAL_SUBCLASSES (material_class s) = None \<Longrightarrow>
   material_subclass_items s = MATERIAL_SUBCLASS_FALLBACK
   \<and> length MATERIAL_SUBCLASS_FALLBACK = 1"
  by (simp add: material_subclass_items_def MATERIAL_SUBCLASS_FALLBACK_def)

lemma index_of_Some: "index_of P xs = Some i \<Longrightarrow> i < length xs \<and> P (xs ! i)"
proof (induction xs arbitrary: i)
  case Nil
  then show ?case by simp
next
  case (Cons x xs)
  then show ?case by (auto split: if_splits)
qed

lemma index_of_None: "index_of P xs = None \<Longrightarrow> \<forall>x \<in> set xs. \<not> P x"
  by (induction xs) (auto split: if_splits)

lemma enum_index_str:
  "0 \<le> enum_index items (EnumStr v) \<and>
   (items \<noteq> [] \<longrightarrow> enum_index items (EnumStr v) < int (length items)) \<and>
   (v \<in> set (map fst items) \<longrightarrow> fst (items ! nat (enum_index items (EnumStr v))) = v)"
proof (cases "index_of (\<lambda>item. fst item = v) items")
  case None
  from index_of_None [OF this] show ?thesis
    by (auto simp: enum_index_def None)
next
  case (Some i)
  from index_of_Some [OF this] show ?thesis
    by (auto simp: enum_index_def Some)
qed

lemma resolve_str:
  "\<exists>n. resolve_subclass_name c (EnumStr v) = Inr n \<and>
       (\<forall>items. MATERIAL_SUBCLASSES c = Some items \<longrightarrow> v \<in> set (map fst items) \<longrightarrow> n = v) \<and>
       (MATERIAL_SUBCLASSES c = None \<longrightarrow> n = ''default'')"
proof (cases "MATERIAL_SUBCLASSES c")
  case None
  then show ?thesis by (simp add: resolve_subclass_name_def)
next
  case (Some items)
  from tables_ok [OF Some] have ne: "items \<noteq> []" by simp
  show ?thesis
    using enum_index_str [of items v] ne
    by (auto simp: resolve_subclass_name_def Some Let_def py_getitem_def)
qed

lemma get_uv_name_str: "\<exists>n. get_uv_name items (EnumStr v) = Inr n"
  using enum_index_str [of items v]
  by (cases "items = []") (auto simp: get_uv_name_def Let_def py_getitem_def)

lemma textures_loop_total:
  "\<exists>t. build_textures_loop abspath items s cfg acc = Inr t"
proof (induction cfg arbitrary: acc)
  case Nil
  show ?case by simp
next
  case (Cons a cfg)
  obtain ch tp up where a: "a = (ch, tp, up)" by (cases a) auto
  obtain n where n: "get_uv_name items (EnumStr (getattr_uv s up)) = Inr n"
    using get_uv_name_str by blast
  show ?case
    using Cons.IH by (simp add: a n Let_def)
qed

lemma resolve_not_found:
  assumes "MATERIAL_SUBCLASSES c = Some items" and "v \<notin> set (map fst items)"
  shows "resolve_subclass_name c (EnumStr v) = Inr (fst (hd items))"
proof -
  from tables_ok [OF assms(1)] have ne: "items \<noteq> []" by simp
  have "index_of (\<lambda>item. fst item = v) items = None"
  proof (cases "index_of (\<lambda>item. fst item = v) items")
    case (Some i)
    from index_of_Some [OF this] assms(2) show ?thesis
      by (metis length_map nth_map nth_mem)
  qed simp
  then have "enum_index items (EnumStr v) = 0" by (simp add: enum_index_def)
  with ne show ?thesis
    by (simp add: resolve_subclass_name_def assms(1) py_getitem_def hd_conv_nth)
qed

lemma extract_total:
  "\<exists>n d. resolve_subclass_name (material_class s) (EnumStr (get_material_subclass s)) = Inr n
         \<and> extract_blenrose_material_data abspath uvs s = Inr d
         \<and> data_material_class d = material_class s
         \<and> data_material_subclass d = n
         \<and> material_name d = py_lower (material_class s) @ ''.'' @ py_lower n"
proof -
  from resolve_str [of "material_class s" "get_material_subclass s"]
  obtain n where
    n: "resolve_subclass_name (material_class s) (EnumStr (get_material_subclass s)) = Inr n"
    by blast
  obtain t where t: "build_textures_dict abspath (uv_channel_items uvs) s = Inr t"
    unfolding build_textures_dict_def using textures_loop_total by blast
  show ?thesis
    by (simp add: extract_blenrose_material_data_def n t Let_def)
qed

lemma table_items:
  "MATERIAL_SUBCLASSES (material_class s) = Some items \<Longrightarrow> material_subclass_items s = items"
proof -
  assume a: "MATERIAL_SUBCLASSES (material_class s) = Some items"
  then have "material_class s \<noteq> []"
    by (auto simp: MATERIAL_SUBCLASSES_def MATERIAL_SUBCLASSES_items_def split: if_splits)
  with a show ?thesis by (simp add: material_subclass_items_def)
qed

text \<open>
  Claim C9, as the specification states it, fails. The material of \<open>tree_after_water\<close>
  has the class TREE and a stored subclass index that the table of TREE does not have,
  so its subclass reads as the empty string; lowercased class, dot and lowercased
  subclass give "tree.". The exported entry is named "tree.default": the serialiser did
  not find the subclass in the table and took the table's first entry.
\<close>

theorem stale_subclass_exports_first_subclass:
  "get_material_subclass tree_after_water = ''''
   \<and> \<not> subclass_valid tree_after_water
   \<and> py_lower (material_class tree_after_water) @ ''.''
       @ py_lower (get_material_subclass tree_after_water) = ''tree.''
   \<and> \<not> isl (extract_blenrose_material_data id [] tree_after_water)
   \<and> material_name (projr (extract_blenrose_material_data id [] tree_after_water))
       = ''tree.default''"
proof -
  have c: "material_class tree_after_water = ''TREE''"
    by (simp add: tree_after_water_def set_material_class_def)
  have m: "MATERIAL_SUBCLASSES ''TREE'' = Some [(''DEFAULT'', ''default'', '''')]"
    by (simp add: MATERIAL_SUBCLASSES_def MATERIAL_SUBCLASSES_items_def)
  have i: "material_subclass_items tree_after_water = [(''DEFAULT'', ''default'', '''')]"
    using table_items [of tree_after_water] by (simp add: c m)
  have g: "get_material_subclass tree_after_water = ''''"
    by (simp add: get_material_subclass_def i Let_def)
      (simp add: tree_after_water_def set_material_class_def water_skatepark_def)
  have v: "\<not> subclass_valid tree_after_water"
    by (simp add: subclass_valid_def g i)
  have r: "resolve_subclass_name (material_class tree_after_water)
             (EnumStr (get_material_subclass tree_after_water)) = Inr ''DEFAULT''"
    using resolve_not_found [OF m, of "''''"] by (simp add: c g)
  from extract_total [of tree_after_water id "[]"] r
  obtain d where d: "extract_blenrose_material_data id [] tree_after_water = Inr d"
    and n: "material_name d = py_lower (material_class tree_after_water) @ ''.''
               @ py_lower ''DEFAULT''"
    by auto
  have l: "py_lower ''TREE'' = ''tree''" "py_lower ''DEFAULT'' = ''default''" "py_lower '''' = ''''"
    by (simp_all add: py_lower_def char_lower_def)
  show ?thesis
    using g v by (simp add: d n c l)
qed

text \<open>
  Claim C9, amended. Serialising a material always yields an entry. Its class is the
  material's class. Its subclass is the material's subclass identifier when that is a
  member of the class's table, the first identifier of the class's table when it is not,
  and "default" for a class without a table. Its \<open>material_name\<close> is the lowercased
  class, a dot, and that subclass lowercased; in particular, whenever the material's
  subclass is a member of the class's table, the name is built from the material's own
  class and subclass.
\<close>

theorem material_name_is_class_dot_subclass:
  "\<exists>d. extract_blenrose_material_data abspath uvs s = Inr d
     \<and> data_material_class d = material_class s
     \<and> data_material_subclass d
         = (if MATERIAL_SUBCLASSES (material_class s) = None then ''default''
            else if subclass_valid s then get_material_subclass s
            else fst (hd (material_subclass_items s)))
     \<and> material_name d
         = py_lower (data_material_class d) @ ''.'' @ py_lower (data_material_subclass d)
     \<and> (subclass_valid s \<longrightarrow>
          material_name d
            = py_lower (material_class s) @ ''.'' @ py_lower (get_material_subclass s))"
proof -
  from extract_total [of s abspath uvs] obtain n d where
    n: "resolve_subclass_name (material_class s) (EnumStr (get_material_subclass s)) = Inr n"
    and d: "extract_blenrose_material_data abspath uvs s = Inr d"
    and c: "data_material_class d = material_class s"
    and sc: "data_material_subclass d = n"
    and mn: "material_name d = py_lower (material_class s) @ ''.'' @ py_lower n"
    by blast
  have e: "n = (if MATERIAL_SUBCLASSES (material_class s) = None then ''default''
            else if subclass_valid s then get_material_subclass s
            else fst (hd (material_subclass_items s)))"
  proof (cases "MATERIAL_SUBCLASSES (material_class s)")
    case None
    with n show ?thesis by (simp add: resolve_subclass_name_def)
  next
    case (Some items)
    note i = table_items [OF Some]
    show ?thesis
    proof (cases "subclass_valid s")
      case True
      then have "get_material_subclass s \<in> set (map fst items)"
        by (simp add: subclass_valid_def i)
      with resolve_str [of "material_class s" "get_material_subclass s"] n Some True
      show ?thesis by auto
    next
      case False
      then have "get_material_subclass s \<notin> set (map fst items)"
        by (simp add: subclass_valid_def i)
      from resolve_not_found [OF Some this] n False Some show ?thesis
        by (simp add: i)
    qed
  qed
  have v: "py_lower n = py_lower (get_material_subclass s)" if "subclass_valid s"
  proof (cases "MATERIAL_SUBCLASSES (material_class s)")
    case None
    from that have "get_material_subclass s = ''DEFAULT''"
      by (simp add: subclass_valid_def material_subclass_items_def None
          MATERIAL_SUBCLASS_FALLBACK_def)
    with e None show ?thesis by (simp add: py_lower_def char_lower_def)
  next
    case (Some items)
    with e that show ?thesis by simp
  qed
  show ?thesis
    using d c sc mn e v by auto
qed

theorem material_name_is_class_dot_subclass_witness:
  "subclass_valid environment_default
   \<and> material_name (projr (extract_blenrose_material_data id [] environment_default))
       = ''environment.default''
   \<and> \<not> subclass_valid tree_after_water
   \<and> MATERIAL_SUBCLASSES (material_class tree_after_water) \<noteq> None
   \<and> data_material_subclass (projr (extract_blenrose_material_data id [] tree_after_water))
       = ''DEFAULT''"
proof -
  have v: "subclass_valid environment_default"
    by (simp add: valid_iff environment_default_def default_settings_def
        material_subclass_items_def MATERIAL_SUBCLASSES_def MATERIAL_SUBCLASSES_items_def)
  from material_name_is_class_dot_subclass [of id "[]" environment_default] v
  obtain d where d: "extract_blenrose_material_data id [] environment_default = Inr d"
    and "material_name d
      = py_lower (material_class environment_default) @ ''.''
          @ py_lower (get_material_subclass environment_default)"
    by blast
  moreover have "py_lower (material_class environment_default) @ ''.''
          @ py_lower (get_material_subclass environment_default) = ''environment.default''"
    by (simp add: environment_default_def default_settings_def get_material_subclass_def
        material_subclass_items_def MATERIAL_SUBCLASSES_def MATERIAL_SUBCLASSES_items_def
        py_lower_def char_lower_def Let_def)
  ultimately have 1:
    "material_name (projr (extract_blenrose_material_data id [] environment_default))
       = ''environment.default''"
    by simp
  have c: "material_class tree_after_water = ''TREE''"
    by (simp add: tree_after_water_def set_material_class_def)
  have m: "MATERIAL_SUBCLASSES ''TREE'' = Some [(''DEFAULT'', ''default'', '''')]"
    by (simp add: MATERIAL_SUBCLASSES_def MATERIAL_SUBCLASSES_items_def)
  have i: "material_subclass_items tree_after_water = [(''DEFAULT'', ''default'', '''')]"
    using table_items [of tree_after_water] by (simp add: c m)
  have w: "\<not> subclass_valid tree_after_water"
    by (simp add: valid_iff i)
      (simp add: tree_after_water_def set_material_class_def water_skatepark_def)
  from material_name_is_class_dot_subclass [of id "[]" tree_after_water]
  obtain d' where "extract_blenrose_material_data id [] tree_after_water = Inr d'"
    and "data_material_subclass d'
         = (if MATERIAL_SUBCLASSES (material_class tree_after_water) = None then ''default''
            else if subclass_valid tree_after_water then get_material_subclass tree_after_water
            else fst (hd (material_subclass_items tree_after_water)))"
    by blast
  with w have 2:
    "data_material_subclass (projr (extract_blenrose_material_data id [] tree_after_water))
       = ''DEFAULT''"
    by (simp add: c m i)
  show ?thesis using v 1 w 2 by (simp add: c m)
qed

section \<open>Statements in sequence and statements on one node\<close>

lemma run_append:
  "run (fs @ gs) nt =
     (case run fs nt of (None, nt') \<Rightarrow> run gs nt' | (Some e, nt') \<Rightarrow> (Some e, nt'))"
  by (induction fs arbitrary: nt) (auto split: prod.splits option.splits)

lemma node_stmt_frame:
  assumes "node_stmt k F nt = (e, nt')"
  shows "links nt' = links nt"
    and "j \<noteq> k \<Longrightarrow> nodes nt' j = nodes nt j"
    and "nodes nt' j = None \<longleftrightarrow> nodes nt j = None"
  using assms
  by (auto simp: node_stmt_def split: option.splits sum.splits if_splits)

lemma node_stmt_raise: "node_stmt k F nt = (Some e, nt') \<Longrightarrow> nt' = nt"
  by (auto simp: node_stmt_def split: option.splits sum.splits)

lemma run_node_stmts_frame:
  assumes "run (map (\<lambda>p. node_stmt (fst p) (snd p)) kfs) nt = (e, nt')"
  shows "links nt' = links nt \<and> (\<forall>j. j \<notin> fst ` set kfs \<longrightarrow> nodes nt' j = nodes nt j) \<and>
         (\<forall>j. nodes nt' j = None \<longleftrightarrow> nodes nt j = None)"
  using assms
proof (induction kfs arbitrary: nt)
  case Nil
  then show ?case by simp
next
  case (Cons p kfs)
  obtain e1 nt1 where s: "node_stmt (fst p) (snd p) nt = (e1, nt1)"
    by (cases "node_stmt (fst p) (snd p) nt") auto
  note f = node_stmt_frame [OF s]
  show ?case
  proof (cases e1)
    case None
    with Cons.prems s have "run (map (\<lambda>p. node_stmt (fst p) (snd p)) kfs) nt1 = (e, nt')"
      by simp
    from Cons.IH [OF this] show ?thesis
      using f by auto
  next
    case (Some err)
    with Cons.prems s have "nt' = nt1" by simp
    moreover from s Some have "nt1 = nt" by (simp add: node_stmt_raise)
    ultimately show ?thesis by simp
  qed
qed

lemma node_stmt_fixed:
  "nodes nt k = Some n \<Longrightarrow> F (links nt) n = Inr n \<Longrightarrow> node_stmt k F nt = (None, nt)"
  by (simp add: node_stmt_def map_upd_triv)

lemma node_stmt_absent:
  "nodes nt k = None \<Longrightarrow> node_stmt k F nt = (None, nt)"
  by (simp add: node_stmt_def)

lemma run_node_stmts_idem:
  assumes "distinct (map fst kfs)"
    and "\<forall>p \<in> set kfs. idem_step (snd p)"
    and "run (map (\<lambda>p. node_stmt (fst p) (snd p)) kfs) nt = (e, nt')"
  shows "run (map (\<lambda>p. node_stmt (fst p) (snd p)) kfs) nt' = (e, nt')"
  using assms
proof (induction kfs arbitrary: nt)
  case Nil
  then show ?case by simp
next
  case (Cons p kfs)
  let ?rest = "map (\<lambda>p. node_stmt (fst p) (snd p)) kfs"
  obtain k F where p: "p = (k, F)" by (cases p) auto
  from Cons.prems(1) p have kn: "k \<notin> fst ` set kfs" and d: "distinct (map fst kfs)"
    by auto
  from Cons.prems(2) p have iF: "idem_step F" and ir: "\<forall>p \<in> set kfs. idem_step (snd p)"
    by auto
  show ?case
  proof (cases "nodes nt k")
    case None
    then have s: "node_stmt k F nt = (None, nt)" by (rule node_stmt_absent)
    with Cons.prems(3) p have r: "run ?rest nt = (e, nt')" by simp
    from run_node_stmts_frame [OF r] kn None have "nodes nt' k = None" by simp
    then have "node_stmt k F nt' = (None, nt')" by (rule node_stmt_absent)
    moreover from Cons.IH [OF d ir r] have "run ?rest nt' = (e, nt')" .
    ultimately show ?thesis by (simp add: p)
  next
    case (Some n)
    show ?thesis
    proof (cases "F (links nt) n")
      case (Inl err)
      with Some have s: "node_stmt k F nt = (Some err, nt)" by (simp add: node_stmt_def)
      with Cons.prems(3) p have "e = Some err" "nt' = nt" by simp_all
      with s show ?thesis by (simp add: p)
    next
      case (Inr n1)
      let ?nt1 = "nt\<lparr>nodes := (nodes nt)(k \<mapsto> n1)\<rparr>"
      from Some Inr have s: "node_stmt k F nt = (None, ?nt1)" by (simp add: node_stmt_def)
      with Cons.prems(3) p have r: "run ?rest ?nt1 = (e, nt')" by simp
      from run_node_stmts_frame [OF r] kn
      have l: "links nt' = links nt" and n: "nodes nt' k = Some n1" by simp_all
      from iF Inr have "F (links nt) n1 = Inr n1" by (simp add: idem_step_def)
      with l have "F (links nt') n1 = Inr n1" by simp
      with n have "node_stmt k F nt' = (None, nt')" by (rule node_stmt_fixed)
      moreover from Cons.IH [OF d ir r] have "run ?rest nt' = (e, nt')" .
      ultimately show ?thesis by (simp add: p)
    qed
  qed
qed

lemma run_node_stmts_links:
  assumes "\<forall>p \<in> set kfs. \<forall>n. snd p L2 n = snd p (links nt) n"
    and "run (map (\<lambda>p. node_stmt (fst p) (snd p)) kfs) nt = (e, nt')"
  shows "run (map (\<lambda>p. node_stmt (fst p) (snd p)) kfs) (nt\<lparr>links := L2\<rparr>) = (e, nt'\<lparr>links := L2\<rparr>)"
  using assms
proof (induction kfs arbitrary: nt)
  case Nil
  then show ?case by simp
next
  case (Cons p kfs)
  let ?rest = "map (\<lambda>p. node_stmt (fst p) (snd p)) kfs"
  obtain k F where p: "p = (k, F)" by (cases p) auto
  from Cons.prems(1) p have F: "\<And>n. F L2 n = F (links nt) n"
    and R: "\<forall>p \<in> set kfs. \<forall>n. snd p L2 n = snd p (links nt) n" by auto
  obtain e1 nt1 where s: "node_stmt k F nt = (e1, nt1)" by (cases "node_stmt k F nt") auto
  have s2: "node_stmt k F (nt\<lparr>links := L2\<rparr>) = (e1, nt1\<lparr>links := L2\<rparr>)"
    using s F by (auto simp: node_stmt_def split: option.splits sum.splits)
  show ?case
  proof (cases e1)
    case None
    with Cons.prems(2) s p have r: "run ?rest nt1 = (e, nt')" by simp
    from node_stmt_frame(1) [OF s] R
    have "\<forall>p \<in> set kfs. \<forall>n. snd p L2 n = snd p (links nt1) n" by simp
    from Cons.IH [OF this r] s2 None show ?thesis by (simp add: p)
  next
    case (Some err)
    with Cons.prems(2) s p have "e = Some err" "nt' = nt1" by simp_all
    with s2 Some show ?thesis by (simp add: p)
  qed
qed

section \<open>The update path as a table of node statements\<close>

lemma index_of_map: "index_of P (map f xs) = index_of (\<lambda>x. P (f x)) xs"
  by (induction xs) auto

lemma input_index_names:
  "input_index n name = index_of (\<lambda>x. x = name) (map socket_name (inputs n))"
  by (simp add: input_index_def index_of_map)

lemma with_input_value_names:
  "map socket_name (inputs (with_input_value n i v)) = map socket_name (inputs n)"
  by (cases "i < length (inputs n)")
    (simp_all add: with_input_value_def map_update list_update_same_conv list_update_beyond)

lemma with_input_value_index [simp]:
  "input_index (with_input_value n i v) name = input_index n name"
  by (simp add: input_index_names with_input_value_names)

lemma with_input_value_twice [simp]:
  "with_input_value (with_input_value n i v) i v = with_input_value n i v"
  by (cases "i < length (inputs n)") (simp_all add: with_input_value_def list_update_beyond)

lemma with_input_value_fields [simp]:
  "node_type (with_input_value n i v) = node_type n"
  "outputs (with_input_value n i v) = outputs n"
  "length (inputs (with_input_value n i v)) = length (inputs n)"
  by (simp_all add: with_input_value_def)

lemma with_input_value_kind [simp]:
  "socket_kind (inputs (with_input_value n i v) ! j) = socket_kind (inputs n ! j)"
  by (cases "i < length (inputs n)"; cases "j = i")
    (simp_all add: with_input_value_def list_update_beyond)

lemma idem_steps:
  "idem_step (image_step s p)"
  "idem_step (uv_step s p)"
  "idem_step (input_step name v)"
  "idem_step mix_fac_step"
  by (auto simp: idem_step_def image_step_def uv_step_def input_step_def mix_fac_step_def
      split: option.splits if_splits)

lemma update_texture_node_eq:
  "update_texture_node s m = node_stmt (fst m) (image_step s (snd m))"
  by (rule ext)
    (auto simp: update_texture_node_def node_stmt_def image_step_def map_upd_triv
      split: prod.splits option.splits)

lemma update_uv_node_eq:
  "update_uv_node s m = node_stmt (fst m) (uv_step s (snd m))"
  by (rule ext)
    (auto simp: update_uv_node_def node_stmt_def uv_step_def map_upd_triv
      split: prod.splits option.splits)

lemma update_input_value_eq:
  "update_input_value k name v = node_stmt k (input_step name v)"
  by (rule ext)
    (auto simp: update_input_value_def set_default_value_def node_stmt_def input_step_def
      with_input_value_def split: option.splits)

lemma update_mix_shader_fac_eq:
  "update_mix_shader_fac = node_stmt ''BR_MixShader'' mix_fac_step"
  by (rule ext)
    (auto simp: update_mix_shader_fac_def set_default_value_def node_stmt_def mix_fac_step_def
      with_input_value_def is_linked_def map_upd_triv split: option.splits)

lemma update_stmts_eq:
  "update_stmts s =
     map (\<lambda>p. node_stmt (fst p) (snd p)) (update_table s) @ [update_lightmap_link]"
  by (simp add: update_stmts_def update_table_def update_texture_node_eq update_uv_node_eq
      update_input_value_eq update_mix_shader_fac_eq comp_def)

lemma update_table_keys:
  "map fst (update_table s) =
     map fst texture_mappings @ map fst uv_mappings
     @ [''BR_DetailMapping'', ''BR_MacroMapping'', ''BR_MacroMix'', ''BR_MixShader'']"
  by (simp add: update_table_def comp_def)

lemma update_table_distinct: "distinct (map fst (update_table s))"
  unfolding update_table_keys by (simp add: texture_mappings_def uv_mappings_def)

lemma update_table_idem: "\<forall>p \<in> set (update_table s). idem_step (snd p)"
  by (auto simp: update_table_def idem_steps)

lemma update_table_links:
  assumes "\<forall>i. mix_linked L2 i = mix_linked L i"
  shows "\<forall>p \<in> set (update_table s). \<forall>n. snd p L2 n = snd p L n"
  using assms
  by (auto simp: update_table_def image_step_def uv_step_def input_step_def mix_fac_step_def
      mix_linked_def split: option.splits)

section \<open>The lightmap link and the idempotence of the update path\<close>

lemma list_ex_filter_weaker:
  "(\<And>l. P l \<Longrightarrow> Q l) \<Longrightarrow> list_ex P (filter Q xs) = list_ex P xs"
  by (induction xs) auto

lemma update_lightmap_link_nodes:
  "update_lightmap_link nt = (e, nt') \<Longrightarrow> nodes nt' = nodes nt"
  by (auto simp: update_lightmap_link_def links_new_def
      split: if_splits option.splits sum.splits)

lemma update_lightmap_link_raise:
  "update_lightmap_link nt = (Some e, nt') \<Longrightarrow> nt' = nt"
  by (auto simp: update_lightmap_link_def links_new_def
      split: if_splits option.splits sum.splits)

lemma update_lightmap_link_mix:
  "update_lightmap_link nt = (e, nt') \<Longrightarrow> mix_linked (links nt') i = mix_linked (links nt) i"
  by (auto simp: update_lightmap_link_def links_new_def mix_linked_def list_ex_iff
      split: if_splits option.splits sum.splits)

lemma links_new_connects:
  assumes "links_new (''BR_LightmapTex'', ''Color'') (''BR_Emission'', Named ''Color'') nt = (None, nt')"
  shows "connection_exists nt'"
proof -
  from assms obtain na nb fi ti where
    a: "nodes nt ''BR_LightmapTex'' = Some na" and b: "nodes nt ''BR_Emission'' = Some nb"
    and fi: "output_index na ''Color'' = Some fi" and ti: "input_index nb ''Color'' = Some ti"
    and nt': "nt' = nt\<lparr>links :=
                filter (\<lambda>l. \<not> (to_node l = ''BR_Emission'' \<and> to_socket l = ti)) (links nt)
                @ [\<lparr>from_node = ''BR_LightmapTex'', from_socket = fi,
                    to_node = ''BR_Emission'', to_socket = ti\<rparr>]\<rparr>"
    by (auto simp: links_new_def select_input_def split: option.splits sum.splits)
  from index_of_Some [OF fi [unfolded output_index_def]]
  have f: "fi < length (outputs na)" "outputs na ! fi = ''Color''" by simp_all
  from index_of_Some [OF ti [unfolded input_index_def]]
  have t: "ti < length (inputs nb)" "socket_name (inputs nb ! ti) = ''Color''" by simp_all
  show ?thesis
    using a b f t
    by (simp add: nt' connection_exists_def from_socket_name_def to_socket_name_def)
qed

lemma update_lightmap_link_connects:
  assumes "update_lightmap_link nt = (None, nt')"
    and "nodes nt ''BR_Emission'' \<noteq> None" and "nodes nt ''BR_LightmapTex'' \<noteq> None"
  shows "connection_exists nt'"
proof (cases "connection_exists nt")
  case True
  with assms show ?thesis by (simp add: update_lightmap_link_def)
next
  case False
  with assms have
    "links_new (''BR_LightmapTex'', ''Color'') (''BR_Emission'', Named ''Color'') nt = (None, nt')"
    by (simp add: update_lightmap_link_def)
  then show ?thesis by (rule links_new_connects)
qed

lemma update_lightmap_link_fixed:
  "connection_exists nt \<or> nodes nt ''BR_Emission'' = None \<or> nodes nt ''BR_LightmapTex'' = None
   \<Longrightarrow> update_lightmap_link nt = (None, nt)"
  by (auto simp: update_lightmap_link_def)

lemma update_lightmap_link_idem:
  assumes "update_lightmap_link nt = (e, nt')"
  shows "update_lightmap_link nt' = (e, nt')"
proof (cases e)
  case (Some err)
  with assms have "nt' = nt" by (simp add: update_lightmap_link_raise)
  with assms show ?thesis by simp
next
  case None
  note n = update_lightmap_link_nodes [OF assms]
  show ?thesis
  proof (cases "nodes nt ''BR_Emission'' \<noteq> None \<and> nodes nt ''BR_LightmapTex'' \<noteq> None")
    case True
    with assms None have "connection_exists nt'"
      by (simp add: update_lightmap_link_connects)
    then show ?thesis using None by (simp add: update_lightmap_link_fixed)
  next
    case False
    with n have "nodes nt' ''BR_Emission'' = None \<or> nodes nt' ''BR_LightmapTex'' = None"
      by auto
    then show ?thesis using None by (simp add: update_lightmap_link_fixed)
  qed
qed

lemma run_update_cases:
  assumes "run (update_stmts s) nt = (e, nt')"
  obtains (raised) err where
      "run (map (\<lambda>p. node_stmt (fst p) (snd p)) (update_table s)) nt = (Some err, nt')"
      "e = Some err"
    | (linked) nt1 where
      "run (map (\<lambda>p. node_stmt (fst p) (snd p)) (update_table s)) nt = (None, nt1)"
      "update_lightmap_link nt1 = (e, nt')"
proof -
  obtain e1 nt1 where r: "run (map (\<lambda>p. node_stmt (fst p) (snd p)) (update_table s)) nt = (e1, nt1)"
    by (cases "run (map (\<lambda>p. node_stmt (fst p) (snd p)) (update_table s)) nt") auto
  show thesis
  proof (cases e1)
    case None
    with assms r have "update_lightmap_link nt1 = (e, nt')"
      by (simp add: update_stmts_eq run_append split: prod.splits option.splits)
    with r None show thesis by (auto intro: linked)
  next
    case (Some err)
    with assms r have "e = Some err" "nt' = nt1"
      by (simp_all add: update_stmts_eq run_append)
    with r Some show thesis by (auto intro: raised)
  qed
qed

lemma run_update_nodes:
  assumes "run (update_stmts s) nt = (e, nt')"
  shows "(\<forall>j. j \<notin> fst ` set (update_table s) \<longrightarrow> nodes nt' j = nodes nt j) \<and>
         (\<forall>j. nodes nt' j = None \<longleftrightarrow> nodes nt j = None)"
  using assms
proof (cases rule: run_update_cases)
  case (raised err)
  from run_node_stmts_frame [OF raised(1)] show ?thesis by simp
next
  case (linked nt1)
  from run_node_stmts_frame [OF linked(1)] update_lightmap_link_nodes [OF linked(2)]
  show ?thesis by simp
qed

lemma run_update_idem:
  assumes "run (update_stmts s) nt = (e, nt')"
  shows "run (update_stmts s) nt' = (e, nt')"
  using assms
proof (cases rule: run_update_cases)
  case (raised err)
  from run_node_stmts_idem [OF update_table_distinct update_table_idem raised(1)]
  show ?thesis using raised(2) by (simp add: update_stmts_eq run_append)
next
  case (linked nt1)
  let ?fs = "map (\<lambda>p. node_stmt (fst p) (snd p)) (update_table s)"
  from run_node_stmts_idem [OF update_table_distinct update_table_idem linked(1)]
  have f1: "run ?fs nt1 = (None, nt1)" .
  have eq: "nt' = nt1\<lparr>links := links nt'\<rparr>"
    using update_lightmap_link_nodes [OF linked(2)] by simp
  have "\<forall>i. mix_linked (links nt') i = mix_linked (links nt1) i"
    using update_lightmap_link_mix [OF linked(2)] by simp
  from run_node_stmts_links [OF update_table_links [OF this] f1]
  have "run ?fs nt' = (None, nt')" using eq by simp
  moreover have "update_lightmap_link nt' = (e, nt')"
    using linked(2) by (rule update_lightmap_link_idem)
  ultimately show ?thesis by (cases e) (simp_all add: update_stmts_eq run_append)
qed

lemma run_update_connects:
  assumes "run (update_stmts s) nt = (None, nt')"
    and "nodes nt' ''BR_Emission'' \<noteq> None" and "nodes nt' ''BR_LightmapTex'' \<noteq> None"
  shows "connection_exists nt'"
  using assms(1)
proof (cases rule: run_update_cases)
  case (raised err)
  then show ?thesis by simp
next
  case (linked nt1)
  from update_lightmap_link_nodes [OF linked(2)] assms(2,3)
  have "nodes nt1 ''BR_Emission'' \<noteq> None" "nodes nt1 ''BR_LightmapTex'' \<noteq> None" by simp_all
  with linked(2) show ?thesis by (simp add: update_lightmap_link_connects)
qed

lemma update_table_keys_reserved:
  "k \<in> fst ` set (update_table s) \<Longrightarrow> startswith k ''BR_''"
  using update_table_keys [of s]
  by (auto simp: texture_mappings_def uv_mappings_def startswith_def
      simp flip: set_map)

section \<open>The update path leaves a rebuilt graph as it is\<close>

lemma run_node_stmts_fixed:
  "\<forall>p \<in> set kfs. (case nodes nt (fst p) of None \<Rightarrow> True
                             | Some n \<Rightarrow> snd p (links nt) n = Inr n) \<Longrightarrow>
   run (map (\<lambda>p. node_stmt (fst p) (snd p)) kfs) nt = (None, nt)"
proof (induction kfs)
  case Nil
  show ?case by simp
next
  case (Cons p kfs)
  then have "node_stmt (fst p) (snd p) nt = (None, nt)"
    by (cases "nodes nt (fst p)") (simp_all add: node_stmt_absent node_stmt_fixed)
  with Cons show ?case by simp
qed

lemmas template_defs = output_material_template_def principled_bsdf_template_def
  mix_shader_template_def emission_template_def uv_map_template_def tex_image_template_def
  normal_map_template_def separate_rgb_template_def mapping_template_def mix_rgb_template_def

lemma template_node_type:
  "node_type output_material_template = ''OUTPUT_MATERIAL''"
  "node_type principled_bsdf_template = ''BSDF_PRINCIPLED''"
  "node_type mix_shader_template = ''MIX_SHADER''"
  "node_type emission_template = ''EMISSION''"
  "node_type uv_map_template = ''UVMAP''"
  "node_type tex_image_template = ''TEX_IMAGE''"
  "node_type normal_map_template = ''NORMAL_MAP''"
  "node_type separate_rgb_template = ''SEPRGB''"
  "node_type mapping_template = ''MAPPING''"
  "node_type mix_rgb_template = ''MIX_RGB''"
  by (simp_all add: template_defs host_node_def)

lemma input_index_update [simp]:
  "input_index (n\<lparr>location := l\<rparr>) name = input_index n name"
  "input_index (n\<lparr>label := lb\<rparr>) name = input_index n name"
  "input_index (n\<lparr>blend_type := b\<rparr>) name = input_index n name"
  "input_index (n\<lparr>node_image := i\<rparr>) name = input_index n name"
  "input_index (n\<lparr>uv_map := u\<rparr>) name = input_index n name"
  by (simp_all add: input_index_def)

lemma template_input_index:
  "input_index mapping_template ''Scale'' = Some 3"
  "input_index mix_rgb_template ''Fac'' = Some 0"
  "input_index mix_shader_template ''Fac'' = Some 0"
  by (simp_all add: input_index_def template_defs host_node_def)

lemma template_input_kind:
  "socket_kind (inputs mapping_template ! 3) = VectorSocket"
  "socket_kind (inputs mix_rgb_template ! 0) = FloatSocket"
  "socket_kind (inputs mix_shader_template ! 0) = FloatSocket"
  by (simp_all add: template_defs host_node_def numeral_3_eq_3)

lemma getattr_simps:
  "getattr_tex s ''diffuse_tex'' = diffuse_tex s"
  "getattr_tex s ''lightmap_tex'' = lightmap_tex s"
  "getattr_tex s ''specular_tex'' = specular_tex s"
  "getattr_tex s ''normal_tex'' = normal_tex s"
  "getattr_tex s ''detail_tex'' = detail_tex s"
  "getattr_tex s ''macro_overlay_tex'' = macro_overlay_tex s"
  "getattr_uv s ''diffuse_uv'' = diffuse_uv s"
  "getattr_uv s ''lightmap_uv'' = lightmap_uv s"
  "getattr_uv s ''specular_uv'' = specular_uv s"
  "getattr_uv s ''normal_uv'' = normal_uv s"
  "getattr_uv s ''detail_uv'' = detail_uv s"
  "getattr_uv s ''macro_overlay_uv'' = macro_overlay_uv s"
  by (simp_all add: getattr_tex_def getattr_uv_def)

lemma step_fixed:
  "getattr_tex s p = img \<Longrightarrow>
     image_step s p L (tex_node_at lbl loc img) = Inr (tex_node_at lbl loc img)"
  "getattr_uv s p = u \<Longrightarrow>
     uv_step s p L (uv_node_at loc u) = Inr (uv_node_at loc u)"
  "input_index n name = Some i \<Longrightarrow> assign_default_value (socket_kind (inputs n ! i)) v = None \<Longrightarrow>
     input_step name v L (with_input_value n i v) = Inr (with_input_value n i v)"
  "input_index n ''Fac'' = Some i \<Longrightarrow> socket_kind (inputs n ! i) = FloatSocket \<Longrightarrow>
     \<not> mix_linked L i \<Longrightarrow> v = FloatValue (2 / 100) \<Longrightarrow>
     mix_fac_step L (with_input_value n i v) = Inr (with_input_value n i v)"
  by (auto simp: image_step_def uv_step_def input_step_def mix_fac_step_def
      tex_node_at_def uv_node_at_def mix_linked_def)

lemmas built_defs = built_tree_def base_nodes_def detail_nodes_def macro_nodes_def
  base_links_def detail_links_def macro_links_def mk_link_def

lemma built_mix_unlinked: "\<not> mix_linked (links (built_tree s)) 0"
  by (simp add: built_defs mix_linked_def)

lemma built_table_fixed:
  "\<forall>p \<in> set (update_table s).
     (case nodes (built_tree s) (fst p) of None \<Rightarrow> True
      | Some n \<Rightarrow> snd p (links (built_tree s)) n = Inr n)"
proof -
  note [simp] = step_fixed getattr_simps template_input_index template_input_kind mix_linked_def
    base_links_def detail_links_def macro_links_def mk_link_def
  show ?thesis
    apply (cases "detail_tex s"; cases "macro_overlay_tex s")
    apply (simp_all add: update_table_def texture_mappings_def uv_mappings_def
      built_tree_def base_nodes_def detail_nodes_def macro_nodes_def)
    done
qed

lemma built_connected: "connection_exists (built_tree s)"
  by (cases "detail_tex s"; cases "macro_overlay_tex s")
    (simp_all add: connection_exists_def from_socket_name_def to_socket_name_def built_defs
      tex_node_at_def template_defs host_node_def)

lemma built_fixed: "run (update_stmts s) (built_tree s) = (None, built_tree s)"
  by (simp add: update_stmts_eq run_append run_node_stmts_fixed [OF built_table_fixed]
      update_lightmap_link_fixed built_connected)

lemma built_critical: "\<not> missing_critical (built_tree s)"
  by (simp add: missing_critical_def critical_nodes_def built_tree_def base_nodes_def
      detail_nodes_def macro_nodes_def)

section \<open>The rebuild computes the graph written out above\<close>

lemma run_ok: "f nt = (None, nt') \<Longrightarrow> run (f # fs) nt = run fs nt'"
  by simp

lemma run_raise: "f nt = (Some e, nt') \<Longrightarrow> run (f # fs) nt = (Some e, nt')"
  by simp

lemma nodes_new_simps:
  "nodes_new ''ShaderNodeOutputMaterial'' nt
     = (None, nt\<lparr>nodes := (nodes nt)(''Material Output'' \<mapsto> output_material_template)\<rparr>)"
  "nodes_new ''ShaderNodeBsdfPrincipled'' nt
     = (None, nt\<lparr>nodes := (nodes nt)(''Principled BSDF'' \<mapsto> principled_bsdf_template)\<rparr>)"
  "nodes_new ''ShaderNodeMixShader'' nt
     = (None, nt\<lparr>nodes := (nodes nt)(''Mix Shader'' \<mapsto> mix_shader_template)\<rparr>)"
  "nodes_new ''ShaderNodeEmission'' nt
     = (None, nt\<lparr>nodes := (nodes nt)(''Emission'' \<mapsto> emission_template)\<rparr>)"
  "nodes_new ''ShaderNodeUVMap'' nt
     = (None, nt\<lparr>nodes := (nodes nt)(''UV Map'' \<mapsto> uv_map_template)\<rparr>)"
  "nodes_new ''ShaderNodeTexImage'' nt
     = (None, nt\<lparr>nodes := (nodes nt)(''Image Texture'' \<mapsto> tex_image_template)\<rparr>)"
  "nodes_new ''ShaderNodeNormalMap'' nt
     = (None, nt\<lparr>nodes := (nodes nt)(''Normal Map'' \<mapsto> normal_map_template)\<rparr>)"
  "nodes_new ''ShaderNodeSeparateRGB'' nt
     = (None, nt\<lparr>nodes := (nodes nt)(''Separate RGB'' \<mapsto> separate_rgb_template)\<rparr>)"
  "nodes_new ''ShaderNodeMapping'' nt
     = (None, nt\<lparr>nodes := (nodes nt)(''Mapping'' \<mapsto> mapping_template)\<rparr>)"
  "nodes_new ''ShaderNodeMixRGB'' nt
     = (None, nt\<lparr>nodes := (nodes nt)(''Mix'' \<mapsto> mix_rgb_template)\<rparr>)"
  by (simp_all add: nodes_new_def new_node_template_def)

lemma template_outputs:
  "outputs output_material_template = []"
  "outputs principled_bsdf_template = [''BSDF'']"
  "outputs mix_shader_template = [''Shader'']"
  "outputs emission_template = [''Emission'']"
  "outputs uv_map_template = [''UV'']"
  "outputs tex_image_template = [''Color'', ''Alpha'']"
  "outputs normal_map_template = [''Normal'']"
  "outputs separate_rgb_template = [''R'', ''G'', ''B'']"
  "outputs mapping_template = [''Vector'']"
  "outputs mix_rgb_template = [''Color'']"
  by (simp_all add: template_defs host_node_def)

lemma template_inputs:
  "inputs output_material_template =
     [\<lparr>socket_name = ''Surface'', socket_kind = ShaderSocket, default_value = HostDefault\<rparr>,
      \<lparr>socket_name = ''Volume'', socket_kind = ShaderSocket, default_value = HostDefault\<rparr>,
      \<lparr>socket_name = ''Displacement'', socket_kind = VectorSocket, default_value = HostDefault\<rparr>]"
  "inputs mix_shader_template =
     [\<lparr>socket_name = ''Fac'', socket_kind = FloatSocket, default_value = HostDefault\<rparr>,
      \<lparr>socket_name = ''Shader'', socket_kind = ShaderSocket, default_value = HostDefault\<rparr>,
      \<lparr>socket_name = ''Shader'', socket_kind = ShaderSocket, default_value = HostDefault\<rparr>]"
  "inputs emission_template =
     [\<lparr>socket_name = ''Color'', socket_kind = ColorSocket, default_value = HostDefault\<rparr>,
      \<lparr>socket_name = ''Strength'', socket_kind = FloatSocket, default_value = HostDefault\<rparr>]"
  "inputs uv_map_template = []"
  "inputs tex_image_template =
     [\<lparr>socket_name = ''Vector'', socket_kind = VectorSocket, default_value = HostDefault\<rparr>]"
  "inputs normal_map_template =
     [\<lparr>socket_name = ''Strength'', socket_kind = FloatSocket, default_value = HostDefault\<rparr>,
      \<lparr>socket_name = ''Color'', socket_kind = ColorSocket, default_value = HostDefault\<rparr>]"
  "inputs separate_rgb_template =
     [\<lparr>socket_name = ''Image'', socket_kind = ColorSocket, default_value = HostDefault\<rparr>]"
  "inputs mapping_template =
     [\<lparr>socket_name = ''Vector'', socket_kind = VectorSocket, default_value = HostDefault\<rparr>,
      \<lparr>socket_name = ''Location'', socket_kind = VectorSocket, default_value = HostDefault\<rparr>,
      \<lparr>socket_name = ''Rotation'', socket_kind = VectorSocket, default_value = HostDefault\<rparr>,
      \<lparr>socket_name = ''Scale'', socket_kind = VectorSocket, default_value = HostDefault\<rparr>]"
  "inputs mix_rgb_template =
     [\<lparr>socket_name = ''Fac'', socket_kind = FloatSocket, default_value = HostDefault\<rparr>,
      \<lparr>socket_name = ''Color1'', socket_kind = ColorSocket, default_value = HostDefault\<rparr>,
      \<lparr>socket_name = ''Color2'', socket_kind = ColorSocket, default_value = HostDefault\<rparr>]"
  by (simp_all add: template_defs host_node_def)

lemma template_uv_map: "uv_map uv_map_template = []"
  by (simp add: template_defs host_node_def)

lemma bsdf_inputs:
  "index_of (\<lambda>s. socket_name s = ''Specular'') (inputs principled_bsdf_template) = Some 7"
  "index_of (\<lambda>s. socket_name s = ''Normal'') (inputs principled_bsdf_template) = Some 22"
  "index_of (\<lambda>s. socket_name s = ''Base Color'') (inputs principled_bsdf_template) = Some 0"
  by (simp_all add: template_defs host_node_def)

lemma set_uv_map_if_fresh:
  "nodes nt k = Some n \<Longrightarrow> uv_map n = [] \<Longrightarrow>
   set_uv_map_if k u nt = (None, nt\<lparr>nodes := (nodes nt)(k \<mapsto> n\<lparr>uv_map := u\<rparr>)\<rparr>)"
  by (cases "u = []") (simp_all add: set_uv_map_if_def modify_node_def map_upd_triv)

lemmas build_defs = build_stmts_def new_uv_node_def new_tex_node_def connect_specular_def
  specular_input_name_def detail_stmts_def macro_stmts_def
  nodes_new_simps set_name_def modify_node_def
  set_location_def set_label_def set_image_def set_blend_type_def
  input_index_def output_index_def set_default_value_def select_input_def links_new_def
  template_outputs template_inputs template_uv_map bsdf_inputs
  set_uv_map_if_fresh run_ok run_raise
  built_tree_def base_nodes_def detail_nodes_def macro_nodes_def
  base_links_def detail_links_def macro_links_def mk_link_def uv_node_at_def tex_node_at_def
  with_input_value_def numeral_2_eq_2

lemma build_plain:
  "detail_tex s = None \<Longrightarrow> macro_overlay_tex s = None \<Longrightarrow>
   run (build_stmts s) \<lparr>nodes = Map.empty, links = []\<rparr> = (None, built_tree s)"
  by (simp add: build_defs del: run.simps(2))

lemma build_detail:
  "detail_tex s = Some d \<Longrightarrow> macro_overlay_tex s = None \<Longrightarrow>
   run (build_stmts s) \<lparr>nodes = Map.empty, links = []\<rparr> = (None, built_tree s)"
  by (simp add: build_defs del: run.simps(2))

lemma build_macro:
  "detail_tex s = None \<Longrightarrow> macro_overlay_tex s = Some m \<Longrightarrow>
   run (build_stmts s) \<lparr>nodes = Map.empty, links = []\<rparr> = (None, built_tree s)"
  by (simp add: build_defs del: run.simps(2))

lemma build_detail_macro:
  "detail_tex s = Some d \<Longrightarrow> macro_overlay_tex s = Some m \<Longrightarrow>
   run (build_stmts s) \<lparr>nodes = Map.empty, links = []\<rparr> = (None, built_tree s)"
  by (simp add: build_defs del: run.simps(2))

lemma build_run: "run (build_stmts s) (clear_nodes nt) = (None, built_tree s)"
proof -
  have c: "clear_nodes nt = \<lparr>nodes = Map.empty, links = []\<rparr>"
    by (simp add: clear_nodes_def remove_nodes_where_def)
  show ?thesis
    unfolding c
    by (cases "detail_tex s"; cases "macro_overlay_tex s")
      (simp_all only: build_plain build_detail build_macro build_detail_macro)
qed

section \<open>What one call of the synchroniser does to a material\<close>

lemma build_mat:
  assumes "use_nodes mat \<longrightarrow> node_tree mat \<noteq> None"
  shows "build_blenrose_node_tree mat =
           (None, mat\<lparr>use_nodes := True,
                      node_tree := Some (built_tree (blenrose_settings mat))\<rparr>)"
proof (cases "use_nodes mat")
  case True
  with assms obtain nt where "node_tree mat = Some nt" by auto
  with True show ?thesis
    by (simp add: build_blenrose_node_tree_def build_run)
next
  case False
  then show ?thesis
    by (cases "node_tree mat")
      (simp_all add: build_blenrose_node_tree_def enable_nodes_def build_run)
qed

lemma update_all_rebuild:
  assumes "mat_pointer mat \<notin> S" and "use_nodes mat \<longrightarrow> node_tree mat \<noteq> None"
    and "missing_critical (case node_tree mat of None \<Rightarrow> host_default_tree | Some nt \<Rightarrow> nt)"
  shows "update_all_blenrose_nodes S mat =
           (None, mat\<lparr>use_nodes := True,
                      node_tree := Some (built_tree (blenrose_settings mat))\<rparr>)"
proof (cases "use_nodes mat")
  case True
  with assms(2) obtain nt where nt: "node_tree mat = Some nt" by auto
  with assms True show ?thesis
    by (simp add: update_all_blenrose_nodes_def build_mat)
next
  case False
  have "build_blenrose_node_tree (enable_nodes mat) =
          (None, (enable_nodes mat)\<lparr>use_nodes := True,
             node_tree := Some (built_tree (blenrose_settings (enable_nodes mat)))\<rparr>)"
    by (rule build_mat) (simp add: enable_nodes_def split: option.splits)
  with assms False show ?thesis
    by (cases "node_tree mat") (simp_all add: update_all_blenrose_nodes_def enable_nodes_def)
qed

lemma update_all_patch:
  assumes "mat_pointer mat \<notin> S" and "node_tree mat = Some nt" and "\<not> missing_critical nt"
    and "run (update_stmts (blenrose_settings mat)) nt = (e, nt')"
  shows "update_all_blenrose_nodes S mat = (e, mat\<lparr>use_nodes := True, node_tree := Some nt'\<rparr>)"
  using assms
  by (cases "use_nodes mat") (simp_all add: update_all_blenrose_nodes_def enable_nodes_def)

lemma update_all_no_tree:
  assumes "use_nodes mat" and "node_tree mat = None"
  shows "update_all_blenrose_nodes S mat = (None, mat)"
  using assms by (simp add: update_all_blenrose_nodes_def)

lemma missing_critical_cong:
  "(\<forall>j. nodes nt' j = None \<longleftrightarrow> nodes nt j = None) \<Longrightarrow>
   missing_critical nt' = missing_critical nt"
  by (simp add: missing_critical_def critical_nodes_def)

section \<open>The claims about synchronisation, enabling and disabling\<close>

lemma user_tree_missing: "missing_critical user_tree"
  by (simp add: missing_critical_def critical_nodes_def user_tree_def)

lemma managed_tree_complete: "\<not> missing_critical managed_tree"
  using built_critical [of default_settings]
  by (simp add: missing_critical_def critical_nodes_def managed_tree_def)

text \<open>
  Claim C1, as the specification states it, fails. The material of \<open>user_material\<close> has
  lost its mixer and emission nodes and holds a texture node of the user, "My Texture",
  outside the reserved namespace. Synchronising it rebuilds the graph, and after the
  rebuild the user's node is gone.
\<close>

theorem rebuild_removes_user_node:
  "\<not> startswith ''My Texture'' ''BR_''
   \<and> nodes user_tree ''My Texture'' = Some tex_image_template
   \<and> map_option (\<lambda>nt. nodes nt ''My Texture'')
         (node_tree (snd (update_all_blenrose_nodes {} user_material))) = Some None"
proof -
  have "update_all_blenrose_nodes {} user_material =
          (None, user_material\<lparr>use_nodes := True,
             node_tree := Some (built_tree (blenrose_settings user_material))\<rparr>)"
    by (rule update_all_rebuild) (simp_all add: user_material_def user_tree_missing)
  then show ?thesis
    by (simp add: startswith_def user_tree_def user_material_def built_tree_def base_nodes_def
        default_settings_def)
qed

text \<open>
  Claim C1, amended. For a material that is not suppressed and has a graph: when the
  three critical nodes are present, synchronisation leaves every node whose name does
  not start with "BR_" exactly as it was, and it neither adds nor removes a node; when a
  critical node is missing, synchronisation replaces the whole graph, whatever the names
  of its nodes, by the graph that the rebuild creates from the settings.
\<close>

theorem sync_leaves_unreserved_nodes_when_patching:
  assumes "mat_pointer mat \<notin> S" and "node_tree mat = Some nt"
    and "update_all_blenrose_nodes S mat = (e, mat')"
  shows "(\<not> missing_critical nt \<longrightarrow>
            (\<exists>nt'. node_tree mat' = Some nt' \<and>
               (\<forall>k. \<not> startswith k ''BR_'' \<longrightarrow> nodes nt' k = nodes nt k) \<and>
               (\<forall>k. nodes nt' k = None \<longleftrightarrow> nodes nt k = None)))
       \<and> (missing_critical nt \<longrightarrow>
            node_tree mat' = Some (built_tree (blenrose_settings mat)))"
proof (intro conjI impI)
  assume c: "\<not> missing_critical nt"
  obtain e1 t' where r: "run (update_stmts (blenrose_settings mat)) nt = (e1, t')"
    by (cases "run (update_stmts (blenrose_settings mat)) nt") auto
  from update_all_patch [OF assms(1,2) c r] assms(3)
  have m: "node_tree mat' = Some t'" by auto
  from run_update_nodes [OF r] update_table_keys_reserved
  have "(\<forall>k. \<not> startswith k ''BR_'' \<longrightarrow> nodes t' k = nodes nt k) \<and>
        (\<forall>k. nodes t' k = None \<longleftrightarrow> nodes nt k = None)"
    by blast
  with m show "\<exists>nt'. node_tree mat' = Some nt' \<and>
               (\<forall>k. \<not> startswith k ''BR_'' \<longrightarrow> nodes nt' k = nodes nt k) \<and>
               (\<forall>k. nodes nt' k = None \<longleftrightarrow> nodes nt k = None)"
    by blast
next
  assume c: "missing_critical nt"
  from assms(2) have "use_nodes mat \<longrightarrow> node_tree mat \<noteq> None" by simp
  from update_all_rebuild [OF assms(1) this] c assms(2,3)
  show "node_tree mat' = Some (built_tree (blenrose_settings mat))" by auto
qed

theorem sync_leaves_unreserved_nodes_when_patching_witness:
  "\<not> missing_critical managed_tree
   \<and> \<not> startswith ''My Texture'' ''BR_''
   \<and> map_option (\<lambda>nt. nodes nt ''My Texture'')
         (node_tree (snd (update_all_blenrose_nodes {} managed_material)))
       = Some (Some tex_image_template)
   \<and> missing_critical user_tree
   \<and> node_tree (snd (update_all_blenrose_nodes {} user_material))
       = Some (built_tree default_settings)"
proof -
  have a: "mat_pointer managed_material \<notin> {}" by simp
  have b: "node_tree managed_material = Some managed_tree"
    by (simp add: managed_material_def)
  have c: "update_all_blenrose_nodes {} managed_material
             = (fst (update_all_blenrose_nodes {} managed_material),
                snd (update_all_blenrose_nodes {} managed_material))"
    by simp
  have n: "\<not> startswith ''My Texture'' ''BR_''" by (simp add: startswith_def)
  from sync_leaves_unreserved_nodes_when_patching [OF a b c] managed_tree_complete n
  obtain nt' where
    "node_tree (snd (update_all_blenrose_nodes {} managed_material)) = Some nt'"
    "nodes nt' ''My Texture'' = nodes managed_tree ''My Texture''"
    by blast
  then have 1: "map_option (\<lambda>nt. nodes nt ''My Texture'')
         (node_tree (snd (update_all_blenrose_nodes {} managed_material)))
       = Some (Some tex_image_template)"
    by (simp add: managed_tree_def)
  have a': "mat_pointer user_material \<notin> {}" by simp
  have b': "node_tree user_material = Some user_tree"
    by (simp add: user_material_def)
  have c': "update_all_blenrose_nodes {} user_material
             = (fst (update_all_blenrose_nodes {} user_material),
                snd (update_all_blenrose_nodes {} user_material))"
    by simp
  from sync_leaves_unreserved_nodes_when_patching [OF a' b' c'] user_tree_missing
  have 2: "node_tree (snd (update_all_blenrose_nodes {} user_material))
       = Some (built_tree default_settings)"
    by (simp add: user_material_def)
  show ?thesis using managed_tree_complete n 1 user_tree_missing 2 by simp
qed

text \<open>
  Claim C2. Synchronising a material a second time, with the same settings and the same
  suppression set, returns exactly what the first call returned: the same material, so
  the same nodes, the same links and the same parameter values, and the same exception
  if one was raised. The second call adds no node and no link.
\<close>

theorem sync_twice_is_sync_once:
  "update_all_blenrose_nodes S (snd (update_all_blenrose_nodes S mat))
     = update_all_blenrose_nodes S mat"
proof (cases "mat_pointer mat \<in> S")
  case True
  then show ?thesis by (simp add: update_all_blenrose_nodes_def)
next
  case False
  show ?thesis
  proof (cases "use_nodes mat \<and> node_tree mat = None")
    case True
    then show ?thesis by (simp add: update_all_no_tree)
  next
    case nt: False
    let ?nt = "case node_tree mat of None \<Rightarrow> host_default_tree | Some nt \<Rightarrow> nt"
    let ?s = "blenrose_settings mat"
    show ?thesis
    proof (cases "missing_critical ?nt")
      case True
      let ?m1 = "mat\<lparr>use_nodes := True, node_tree := Some (built_tree ?s)\<rparr>"
      from nt have "use_nodes mat \<longrightarrow> node_tree mat \<noteq> None" by simp
      from update_all_rebuild [OF False this True]
      have 1: "update_all_blenrose_nodes S mat = (None, ?m1)" .
      have "update_all_blenrose_nodes S ?m1
              = (None, ?m1\<lparr>use_nodes := True, node_tree := Some (built_tree ?s)\<rparr>)"
        by (rule update_all_patch [where nt = "built_tree ?s"])
          (use False in \<open>simp_all add: built_critical built_fixed\<close>)
      with 1 show ?thesis by simp
    next
      case nm: False
      with nt obtain t where t: "node_tree mat = Some t" and c: "\<not> missing_critical t"
        by (cases "node_tree mat") (simp_all add: missing_critical_def critical_nodes_def host_default_tree_def)
      obtain e t' where r: "run (update_stmts ?s) t = (e, t')"
        by (cases "run (update_stmts ?s) t") auto
      let ?m1 = "mat\<lparr>use_nodes := True, node_tree := Some t'\<rparr>"
      from update_all_patch [OF False t c r]
      have 1: "update_all_blenrose_nodes S mat = (e, ?m1)" .
      from run_update_nodes [OF r] have "missing_critical t' = missing_critical t"
        by (intro missing_critical_cong) simp
      with c have c': "\<not> missing_critical t'" by simp
      have "update_all_blenrose_nodes S ?m1
              = (e, ?m1\<lparr>use_nodes := True, node_tree := Some t'\<rparr>)"
        by (rule update_all_patch [where nt = t'])
          (use False c' run_update_idem [OF r] in simp_all)
      with 1 show ?thesis by simp
    qed
  qed
qed

lemma suppressed_setattr:
  "mat_pointer mat \<in> S \<Longrightarrow>
   setattr_tex S p v mat = mat\<lparr>blenrose_settings := store_tex p v (blenrose_settings mat)\<rparr>"
  "mat_pointer mat \<in> S \<Longrightarrow>
   setattr_uv S p u mat = mat\<lparr>blenrose_settings := store_uv p u (blenrose_settings mat)\<rparr>"
  by (simp_all add: setattr_tex_def setattr_uv_def update_all_blenrose_nodes_def)

text \<open>
  Claim C3 does not hold of the code. The material's diffuse UV choice is UV0. Detection
  found a diffuse image whose UV source is the map UV1, and the mesh has the maps UV0
  and UV1. Auto-fill in fill-only mode
  (\<open>update_existing = False\<close>), called directly or through the enabling of the
  material, leaves the UV choice at UV1: the populated field was overwritten.
\<close>

theorem fill_only_overwrites_uv_choice:
  "diffuse_uv (blenrose_settings user_material) = ''UV0''
   \<and> diffuse_uv (blenrose_settings
        (snd (auto_fill_textures_from_node_tree {} detected_diffuse [''UV0'', ''UV1''] False
                user_material)))
       = ''UV1''
   \<and> diffuse_uv (blenrose_settings enabling_material) = ''UV0''
   \<and> diffuse_uv (blenrose_settings
        (snd (snd (update_enabled {} detected_diffuse [''UV0'', ''UV1''] enabling_material))))
       = ''UV1''"
proof -
  have f: "fill_channel {1} (uv_channel_items [''UV0'', ''UV1'']) False m (hd detected_diffuse)
           = m\<lparr>blenrose_settings :=
                 (blenrose_settings m)\<lparr>diffuse_tex := Some (info_image (snd (hd detected_diffuse))),
                                        diffuse_uv := ''UV1''\<rparr>\<rparr>"
    if "mat_pointer m = 1" "diffuse_tex (blenrose_settings m) = None" for m
    using that
    by (simp add: fill_channel_def detected_diffuse_def texture_prop_map_def uv_prop_map_def
        getattr_tex_def uv_channel_items_def suppressed_setattr store_tex_def store_uv_def)
  have a: "snd (auto_fill_textures_from_node_tree {} detected_diffuse [''UV0'', ''UV1''] False m)
           = m\<lparr>blenrose_settings :=
                 (blenrose_settings m)\<lparr>diffuse_tex := Some (info_image (snd (hd detected_diffuse))),
                                        diffuse_uv := ''UV1''\<rparr>\<rparr>"
    if "mat_pointer m = 1" "diffuse_tex (blenrose_settings m) = None" for m
    using f [OF that] that
    by (simp add: auto_fill_textures_from_node_tree_def Let_def)
      (simp add: detected_diffuse_def)
  have 1: "mat_pointer user_material = 1" "diffuse_tex (blenrose_settings user_material) = None"
    by (simp_all add: user_material_def default_settings_def)
  have 2: "mat_pointer enabling_material = 1"
    "diffuse_tex (blenrose_settings enabling_material) = None"
    by (simp_all add: enabling_material_def user_material_def default_settings_def)
  have e: "snd (snd (update_enabled {} detected_diffuse [''UV0'', ''UV1''] enabling_material))
           = snd (build_blenrose_node_tree
               (snd (auto_fill_textures_from_node_tree {} detected_diffuse [''UV0'', ''UV1''] False
                      enabling_material)))"
    by (simp add: update_enabled_def enabling_material_def user_material_def default_settings_def
        split: prod.splits)
  have b: "blenrose_settings (snd (build_blenrose_node_tree m)) = blenrose_settings m" for m
    by (cases "use_nodes m"; cases "node_tree m")
      (simp_all add: build_blenrose_node_tree_def enable_nodes_def split: prod.splits)
  show ?thesis
    by (simp add: e b a [OF 1] a [OF 2])
      (simp add: user_material_def enabling_material_def default_settings_def)
qed

text \<open>
  Claim C5, as the specification states it, fails. The material of
  \<open>nodes_off_material\<close> is disabled while its "use nodes" switch is off: the callback
  changes nothing, and the reserved node "BR_BSDF" stays in the graph.
\<close>

theorem disable_with_nodes_off_keeps_reserved_nodes:
  "\<not> enabled (blenrose_settings nodes_off_material)
   \<and> startswith ''BR_BSDF'' ''BR_''
   \<and> update_enabled {} [] [] nodes_off_material = ({}, None, nodes_off_material)
   \<and> map_option (\<lambda>nt. nodes nt ''BR_BSDF'') (node_tree nodes_off_material)
       = Some (Some principled_bsdf_template)"
  by (simp add: update_enabled_def nodes_off_material_def user_material_def user_tree_def
      default_settings_def startswith_def)

text \<open>
  Claim C5, amended. When a material that uses nodes and has a graph is disabled, the
  callback removes every node whose name starts with "BR_", leaves every other node as
  it was, and keeps exactly the links that touch no removed node.
\<close>

theorem disable_removes_reserved_nodes:
  assumes "\<not> enabled (blenrose_settings mat)" and "use_nodes mat" and "node_tree mat = Some nt"
  shows "\<exists>nt'. update_enabled S detected uvs mat = (S, None, mat\<lparr>node_tree := Some nt'\<rparr>)
           \<and> (\<forall>k. startswith k ''BR_'' \<longrightarrow> nodes nt' k = None)
           \<and> (\<forall>k. \<not> startswith k ''BR_'' \<longrightarrow> nodes nt' k = nodes nt k)
           \<and> links nt' = filter (\<lambda>l. \<not> startswith (from_node l) ''BR_'' \<and>
                                        \<not> startswith (to_node l) ''BR_'') (links nt)"
proof -
  let ?nt' = "remove_nodes_where (\<lambda>name. startswith name ''BR_'') nt"
  have "update_enabled S detected uvs mat = (S, None, mat\<lparr>node_tree := Some ?nt'\<rparr>)"
    using assms by (simp add: update_enabled_def)
  moreover have "\<forall>k. startswith k ''BR_'' \<longrightarrow> nodes ?nt' k = None"
    and "\<forall>k. \<not> startswith k ''BR_'' \<longrightarrow> nodes ?nt' k = nodes nt k"
    and "links ?nt' = filter (\<lambda>l. \<not> startswith (from_node l) ''BR_'' \<and>
                                        \<not> startswith (to_node l) ''BR_'') (links nt)"
    by (simp_all add: remove_nodes_where_def)
  ultimately show ?thesis by blast
qed

theorem disable_removes_reserved_nodes_witness:
  "\<not> enabled (blenrose_settings user_material)
   \<and> use_nodes user_material
   \<and> node_tree user_material = Some user_tree
   \<and> startswith ''BR_BSDF'' ''BR_'' \<and> \<not> startswith ''My Texture'' ''BR_''
   \<and> nodes user_tree ''BR_BSDF'' \<noteq> None
   \<and> map_option (\<lambda>nt. (nodes nt ''BR_BSDF'', nodes nt ''My Texture'', links nt))
        (node_tree (snd (snd (update_enabled {} [] [] user_material))))
       = Some (None, Some tex_image_template, [])"
proof -
  have a: "\<not> enabled (blenrose_settings user_material)"
    by (simp add: user_material_def default_settings_def)
  have b: "use_nodes user_material" by (simp add: user_material_def)
  have c: "node_tree user_material = Some user_tree" by (simp add: user_material_def)
  have p: "startswith ''BR_BSDF'' ''BR_''" and q: "\<not> startswith ''My Texture'' ''BR_''"
    by (simp_all add: startswith_def)
  from disable_removes_reserved_nodes [OF a b c, of "{}" "[]" "[]"] obtain nt' where
    u: "update_enabled {} [] [] user_material = ({}, None, user_material\<lparr>node_tree := Some nt'\<rparr>)"
    and r: "\<forall>k. startswith k ''BR_'' \<longrightarrow> nodes nt' k = None"
    and k: "\<forall>k. \<not> startswith k ''BR_'' \<longrightarrow> nodes nt' k = nodes user_tree k"
    and l: "links nt' = filter (\<lambda>l. \<not> startswith (from_node l) ''BR_'' \<and>
                                        \<not> startswith (to_node l) ''BR_'') (links user_tree)"
    by blast
  from r p have 1: "nodes nt' ''BR_BSDF'' = None" by blast
  from k q have 2: "nodes nt' ''My Texture'' = Some tex_image_template"
    by (simp add: user_tree_def)
  from l have 3: "links nt' = []"
    by (simp add: user_tree_def mk_link_def startswith_def)
  show ?thesis using a b c p q u 1 2 3 by (simp add: user_tree_def)
qed

text \<open>The other half of the guard: disabling a material that does not use nodes, or has
  no graph, changes nothing.\<close>

lemma disable_without_nodes_changes_nothing:
  "\<not> enabled (blenrose_settings mat) \<Longrightarrow> \<not> (use_nodes mat \<and> node_tree mat \<noteq> None) \<Longrightarrow>
   update_enabled S detected uvs mat = (S, None, mat)"
  by (simp add: update_enabled_def)

text \<open>
  Claim C6. When the material's pointer is in the suppression set, the update callback
  returns at once: no exception, and the material, with its graph, its links and every
  parameter value, is what it was.
\<close>

theorem suppressed_update_is_noop:
  "mat_pointer mat \<in> S \<Longrightarrow> update_all_blenrose_nodes S mat = (None, mat)"
  by (simp add: update_all_blenrose_nodes_def)

theorem suppressed_update_is_noop_witness:
  "mat_pointer user_material \<in> {1}
   \<and> update_all_blenrose_nodes {1} user_material = (None, user_material)"
  using suppressed_update_is_noop [of user_material "{1}"] by (simp add: user_material_def)

lemma unlinked_nodes: "nodes unlinked_tree = nodes (built_tree default_settings)"
  by (simp add: unlinked_tree_def)

lemma unlinked_not_connected: "\<not> connection_exists unlinked_tree"
  by (simp add: connection_exists_def unlinked_tree_def list_ex_iff)

lemma unlinked_complete: "\<not> missing_critical unlinked_tree"
  using built_critical [of default_settings]
  by (simp add: missing_critical_def critical_nodes_def unlinked_nodes)

lemma unlinked_update_ok:
  "fst (run (update_stmts (default_settings\<lparr>enabled := True\<rparr>)) unlinked_tree) = None"
proof -
  let ?s = "default_settings\<lparr>enabled := True\<rparr>"
  let ?fs = "map (\<lambda>p. node_stmt (fst p) (snd p)) (update_table ?s)"
  have b: "built_tree ?s = built_tree default_settings"
    by (simp add: built_tree_def base_nodes_def detail_nodes_def macro_nodes_def)
  have f: "run ?fs (built_tree ?s) = (None, built_tree ?s)"
    by (rule run_node_stmts_fixed [OF built_table_fixed])
  have m: "\<forall>i. mix_linked (links unlinked_tree) i = mix_linked (links (built_tree ?s)) i"
    by (simp add: b unlinked_tree_def mix_linked_def list_ex_iff) auto
  have u: "unlinked_tree = (built_tree ?s)\<lparr>links := links unlinked_tree\<rparr>"
    by (simp add: b unlinked_tree_def)
  from run_node_stmts_links [OF update_table_links [OF m] f]
  have r: "run ?fs unlinked_tree = (None, unlinked_tree)"
    using u by simp
  have l: "fst (update_lightmap_link unlinked_tree) = None"
    by (simp add: update_lightmap_link_def unlinked_not_connected links_new_def unlinked_nodes
        built_tree_def base_nodes_def default_settings_def tex_node_at_def
        output_index_def select_input_def input_index_def template_outputs template_inputs)
  show ?thesis
    by (simp add: update_stmts_eq run_append r split: prod.splits option.splits)
      (use l in auto)
qed

lemma detail_mapping_abort:
  fixes n :: node
  defines "s \<equiv> default_settings\<lparr>enabled := True\<rparr>"
  defines "t \<equiv> unlinked_tree\<lparr>nodes := (nodes unlinked_tree)(''BR_DetailMapping'' \<mapsto> n)\<rparr>"
  assumes "\<forall>L. input_step ''Scale''
                (VectorValue (detail_normal_uv_scale s) (detail_normal_uv_scale s) 1) L n = Inl e"
  shows "run (update_stmts s) t = (Some e, t)"
proof -
  let ?T1 = "map (\<lambda>m. (fst m, image_step s (snd m))) texture_mappings
             @ map (\<lambda>m. (fst m, uv_step s (snd m))) uv_mappings"
  let ?T2 = "[(''BR_DetailMapping'',
               input_step ''Scale''
                 (VectorValue (detail_normal_uv_scale s) (detail_normal_uv_scale s) 1)),
              (''BR_MacroMapping'',
               input_step ''Scale''
                 (VectorValue (macro_overlay_uv_scale s) (macro_overlay_uv_scale s) 1)),
              (''BR_MacroMix'', input_step ''Fac'' (FloatValue (macro_overlay_opacity s))),
              (''BR_MixShader'', mix_fac_step)]"
  let ?run = "\<lambda>T. run (map (\<lambda>p. node_stmt (fst p) (snd p)) T)"
  have f: "\<forall>p \<in> set ?T1. (case nodes t (fst p) of None \<Rightarrow> True
                                | Some n \<Rightarrow> snd p (links t) n = Inr n)"
    by (simp add: texture_mappings_def uv_mappings_def t_def s_def unlinked_tree_def
        built_tree_def base_nodes_def step_fixed getattr_simps default_settings_def)
  have r1: "?run ?T1 t = (None, t)"
    by (rule run_node_stmts_fixed [OF f])
  have r2: "?run ?T2 t = (Some e, t)"
    using assms(3) by (simp add: node_stmt_def t_def)
  have "update_table s = ?T1 @ ?T2"
    by (simp add: update_table_def)
  then have "run (update_stmts s) t
             = run (map (\<lambda>p. node_stmt (fst p) (snd p)) ?T1
                    @ (map (\<lambda>p. node_stmt (fst p) (snd p)) ?T2 @ [update_lightmap_link])) t"
    by (simp only: update_stmts_eq map_append append_assoc)
  also have "\<dots> = (Some e, t)"
    by (simp only: run_append [of "map (\<lambda>p. node_stmt (fst p) (snd p)) ?T1"] r1
        run_append [of "map (\<lambda>p. node_stmt (fst p) (snd p)) ?T2"] r2
        prod.case option.case)
  finally show ?thesis .
qed

lemma damaged_update:
  "run (update_stmts (default_settings\<lparr>enabled := True\<rparr>)) damaged_tree
     = (Some KeyError, damaged_tree)"
  unfolding damaged_tree_def
  by (rule detail_mapping_abort)
    (simp add: input_step_def input_index_def template_inputs)

lemma damaged_complete: "\<not> missing_critical damaged_tree"
  using unlinked_complete
  by (simp add: missing_critical_def critical_nodes_def damaged_tree_def)

text \<open>
  A socket of the wrong kind ends the pass as well: with a Vector Math node under the
  name "BR_DetailMapping", assigning the scale tuple to its float input "Scale" is a
  TypeError, and the statements after it, the link step among them, do not run.
\<close>

lemma float_scale_socket_raises_type_error:
  "update_all_blenrose_nodes {} mistyped_material = (Some TypeError, mistyped_material)
   \<and> \<not> connection_exists mistyped_tree"
proof -
  have r: "run (update_stmts (default_settings\<lparr>enabled := True\<rparr>)) mistyped_tree
             = (Some TypeError, mistyped_tree)"
    unfolding mistyped_tree_def
    by (rule detail_mapping_abort)
      (simp add: input_step_def input_index_def vector_math_node_def host_node_def
        numeral_3_eq_3)
  have c: "\<not> missing_critical mistyped_tree"
    using unlinked_complete
    by (simp add: missing_critical_def critical_nodes_def mistyped_tree_def)
  have "update_all_blenrose_nodes {} mistyped_material
          = (Some TypeError, mistyped_material\<lparr>use_nodes := True, node_tree := Some mistyped_tree\<rparr>)"
    by (rule update_all_patch [OF _ _ c]) (simp_all add: mistyped_material_def r)
  moreover have "\<not> connection_exists mistyped_tree"
    by (simp add: connection_exists_def mistyped_tree_def unlinked_tree_def list_ex_iff)
  ultimately show ?thesis by (simp add: mistyped_material_def)
qed

text \<open>
  Claim C7, as the specification states it, fails. In \<open>damaged_tree\<close> the emission
  node and the lightmap texture node are present and unlinked, and the node called
  "BR_DetailMapping" has no input "Scale". The pass raises KeyError at that node, before
  it reaches the link step, and leaves the graph as it was: both nodes present, no link.
  A pass on a suppressed material returns at once and leaves the link missing too.
\<close>

theorem aborted_sync_leaves_lightmap_unlinked:
  "update_all_blenrose_nodes {} damaged_material = (Some KeyError, damaged_material)
   \<and> node_tree damaged_material = Some damaged_tree
   \<and> nodes damaged_tree ''BR_Emission'' \<noteq> None
   \<and> nodes damaged_tree ''BR_LightmapTex'' \<noteq> None
   \<and> \<not> connection_exists damaged_tree
   \<and> update_all_blenrose_nodes {3} unlinked_material = (None, unlinked_material)
   \<and> node_tree unlinked_material = Some unlinked_tree
   \<and> nodes unlinked_tree ''BR_Emission'' \<noteq> None
   \<and> nodes unlinked_tree ''BR_LightmapTex'' \<noteq> None
   \<and> \<not> connection_exists unlinked_tree"
proof -
  have "update_all_blenrose_nodes {} damaged_material
          = (Some KeyError, damaged_material\<lparr>use_nodes := True, node_tree := Some damaged_tree\<rparr>)"
    by (rule update_all_patch [OF _ _ damaged_complete])
      (simp_all add: damaged_material_def damaged_update)
  then have 1: "update_all_blenrose_nodes {} damaged_material = (Some KeyError, damaged_material)"
    by (simp add: damaged_material_def)
  have 2: "nodes damaged_tree ''BR_Emission'' \<noteq> None"
    "nodes damaged_tree ''BR_LightmapTex'' \<noteq> None"
    "nodes unlinked_tree ''BR_Emission'' \<noteq> None"
    "nodes unlinked_tree ''BR_LightmapTex'' \<noteq> None"
    by (simp_all add: damaged_tree_def unlinked_nodes built_tree_def base_nodes_def
        default_settings_def)
  have 3: "\<not> connection_exists damaged_tree"
    by (simp add: connection_exists_def damaged_tree_def unlinked_tree_def list_ex_iff)
  have 4: "update_all_blenrose_nodes {3} unlinked_material = (None, unlinked_material)"
    by (simp add: update_all_blenrose_nodes_def unlinked_material_def)
  show ?thesis
    using 1 2 3 4 unlinked_not_connected
    by (simp add: damaged_material_def unlinked_material_def)
qed

text \<open>
  Claim C7, amended. After a synchronisation pass on a material that is not suppressed,
  if the pass ended without an exception and left a graph with the nodes "BR_Emission"
  and "BR_LightmapTex", a link joins the Color output of the lightmap texture to the
  Color input of the emission node. No hypothesis mentions the lightmap image, and the
  link is put back when it was missing.
\<close>

theorem lightmap_feeds_emission_after_sync:
  assumes "mat_pointer mat \<notin> S"
    and "update_all_blenrose_nodes S mat = (None, mat')"
    and "node_tree mat' = Some nt'"
    and "nodes nt' ''BR_Emission'' \<noteq> None" and "nodes nt' ''BR_LightmapTex'' \<noteq> None"
  shows "connection_exists nt'"
proof (cases "use_nodes mat \<and> node_tree mat = None")
  case True
  with assms(2,3) show ?thesis by (simp add: update_all_no_tree)
next
  case nt: False
  let ?nt = "case node_tree mat of None \<Rightarrow> host_default_tree | Some nt \<Rightarrow> nt"
  show ?thesis
  proof (cases "missing_critical ?nt")
    case True
    from nt have "use_nodes mat \<longrightarrow> node_tree mat \<noteq> None" by simp
    from update_all_rebuild [OF assms(1) this True] assms(2,3)
    have "nt' = built_tree (blenrose_settings mat)" by auto
    then show ?thesis by (simp add: built_connected)
  next
    case False
    with nt obtain t where t: "node_tree mat = Some t" and c: "\<not> missing_critical t"
      by (cases "node_tree mat") (simp_all add: missing_critical_def critical_nodes_def host_default_tree_def)
    obtain e t' where r: "run (update_stmts (blenrose_settings mat)) t = (e, t')"
      by (cases "run (update_stmts (blenrose_settings mat)) t") auto
    from update_all_patch [OF assms(1) t c r] assms(2,3)
    have "e = None" "t' = nt'" by auto
    with r assms(4,5) show ?thesis by (simp add: run_update_connects)
  qed
qed

theorem lightmap_feeds_emission_after_sync_witness:
  "mat_pointer unlinked_material \<notin> {}
   \<and> \<not> connection_exists unlinked_tree
   \<and> fst (update_all_blenrose_nodes {} unlinked_material) = None
   \<and> node_tree (snd (update_all_blenrose_nodes {} unlinked_material)) \<noteq> None
   \<and> nodes (the (node_tree (snd (update_all_blenrose_nodes {} unlinked_material))))
         ''BR_Emission'' \<noteq> None
   \<and> nodes (the (node_tree (snd (update_all_blenrose_nodes {} unlinked_material))))
         ''BR_LightmapTex'' \<noteq> None
   \<and> connection_exists
         (the (node_tree (snd (update_all_blenrose_nodes {} unlinked_material))))"
proof -
  let ?s = "default_settings\<lparr>enabled := True\<rparr>"
  obtain t' where r: "run (update_stmts ?s) unlinked_tree = (None, t')"
    using unlinked_update_ok by (cases "run (update_stmts ?s) unlinked_tree") auto
  have p: "mat_pointer unlinked_material \<notin> {}" by simp
  have u: "update_all_blenrose_nodes {} unlinked_material
             = (None, unlinked_material\<lparr>use_nodes := True, node_tree := Some t'\<rparr>)"
    by (rule update_all_patch [OF p _ unlinked_complete])
      (simp_all add: unlinked_material_def r)
  have n: "node_tree (unlinked_material\<lparr>use_nodes := True, node_tree := Some t'\<rparr>) = Some t'"
    by simp
  from run_update_nodes [OF r]
  have e: "nodes t' ''BR_Emission'' \<noteq> None" and l: "nodes t' ''BR_LightmapTex'' \<noteq> None"
    by (simp_all add: unlinked_nodes built_tree_def base_nodes_def default_settings_def)
  have "connection_exists t'"
    by (rule lightmap_feeds_emission_after_sync [OF p u n e l])
  with u e l show ?thesis by (simp add: unlinked_not_connected)
qed
end
